theory Spec2Isabelle
  imports Complex_Main "HOL-Library.Product_Lexorder" "HOL-Library.Option_ord"
begin

section \<open>Trip itinerary planner: shared values\<close>

text \<open>
  The backend raises \<open>HTTPException(status_code, detail)\<close> for its own failures. The
  other values are the exceptions Python itself raises on the data of a provider, which
  no handler of the backend catches once they leave a \<open>try\<close> block.
\<close>

datatype error =
    HTTPException nat string
  | IndexError
  | KeyError
  | TypeError
  | AttributeError
  | ValueError

definition bind_err :: "error + 'a \<Rightarrow> ('a \<Rightarrow> error + 'b) \<Rightarrow> error + 'b" where
  "bind_err m f = (case m of Inl e \<Rightarrow> Inl e | Inr x \<Rightarrow> f x)"

text \<open>
  \<open>datetime.date\<close> and \<open>datetime.time\<close>: year, month, day and hour, minute, second,
  ordered lexicographically as Python and the store order them.
\<close>

type_synonym date = "int \<times> int \<times> int"

type_synonym clock = "int \<times> int \<times> int"

text \<open>
  What an awaited HTTP exchange inside a \<open>try\<close> block delivers: an exception (transport
  failure, a non-2xx status in \<open>raise_for_status\<close>, a body that is not JSON), or the
  decoded body.
\<close>

datatype 'a outcome = Raised | Returned 'a

text \<open>Python's \<open>int(x)\<close> on a number: truncation towards zero.\<close>

definition py_int :: "real \<Rightarrow> int" where
  "py_int x = (if 0 \<le> x then \<lfloor>x\<rfloor> else \<lceil>x\<rceil>)"

section \<open>Decoded JSON and Python's operations on it\<close>

text \<open>
  A decoded JSON value. An object is the association list of a Python dict, whose keys
  are distinct.
\<close>

datatype json =
    JNull
  | JBool bool
  | JNum real
  | JStr string
  | JArr "json list"
  | JObj "(string \<times> json) list"

text \<open>Python's truth value of a decoded JSON value.\<close>

fun truthy :: "json \<Rightarrow> bool" where
  "truthy JNull = False"
| "truthy (JBool b) = b"
| "truthy (JNum r) = (r \<noteq> 0)"
| "truthy (JStr s) = (s \<noteq> [])"
| "truthy (JArr xs) = (xs \<noteq> [])"
| "truthy (JObj kvs) = (kvs \<noteq> [])"

text \<open>
  \<open>v.get(key, default)\<close>: a dict answers with the value of the key or with the default;
  any other value has no \<open>get\<close>.
\<close>

definition dict_get :: "(string \<times> json) list \<Rightarrow> string \<Rightarrow> json \<Rightarrow> json" where
  "dict_get kvs k dflt = (case map_of kvs k of None \<Rightarrow> dflt | Some v \<Rightarrow> v)"

fun py_get :: "json \<Rightarrow> string \<Rightarrow> json \<Rightarrow> error + json" where
  "py_get (JObj kvs) k dflt = Inr (dict_get kvs k dflt)"
| "py_get v k dflt = Inl AttributeError"

text \<open>\<open>len(v)\<close>: lists, strings and dicts have a length.\<close>

fun py_len :: "json \<Rightarrow> error + nat" where
  "py_len (JArr xs) = Inr (length xs)"
| "py_len (JStr s) = Inr (length s)"
| "py_len (JObj kvs) = Inr (length kvs)"
| "py_len v = Inl TypeError"

text \<open>
  \<open>v[i]\<close> for a non-negative integer \<open>i\<close>: an element of a list, a character of a
  string; a decoded dict has string keys only.
\<close>

fun py_subscript :: "json \<Rightarrow> nat \<Rightarrow> error + json" where
  "py_subscript (JArr xs) i = (if i < length xs then Inr (xs ! i) else Inl IndexError)"
| "py_subscript (JStr s) i = (if i < length s then Inr (JStr [s ! i]) else Inl IndexError)"
| "py_subscript (JObj kvs) i = Inl KeyError"
| "py_subscript v i = Inl TypeError"

text \<open>
  The items \<open>enumerate(v)\<close> runs over: the elements of a list, the characters of a
  string, the keys of a dict.
\<close>

fun py_iter :: "json \<Rightarrow> error + json list" where
  "py_iter (JArr xs) = Inr xs"
| "py_iter (JStr s) = Inr (map (\<lambda>c. JStr [c]) s)"
| "py_iter (JObj kvs) = Inr (map (\<lambda>kv. JStr (fst kv)) kvs)"
| "py_iter v = Inl TypeError"

text \<open>
  The left operand of \<open>v >= 70\<close> or \<open>v <= 35\<close>: a number, a boolean counting as 1 or 0;
  comparing anything else with an integer raises TypeError.
\<close>

fun py_number :: "json \<Rightarrow> error + real" where
  "py_number (JNum r) = Inr r"
| "py_number (JBool b) = Inr (if b then 1 else 0)"
| "py_number v = Inl TypeError"

text \<open>
  \<open>date.fromisoformat(v)\<close>: TypeError unless \<open>v\<close> is a string, ValueError for a string
  that is not an ISO date. Which strings are ISO dates is Python's own, taken as the
  parameter \<open>fromiso\<close>.
\<close>

fun date_fromisoformat :: "(string \<Rightarrow> date option) \<Rightarrow> json \<Rightarrow> error + date" where
  "date_fromisoformat fromiso (JStr s) =
     (case fromiso s of None \<Rightarrow> Inl ValueError | Some d \<Rightarrow> Inr d)"
| "date_fromisoformat fromiso v = Inl TypeError"

text \<open>
  \<open>v[idx] if idx < len(v) else default\<close>: the length is taken first, then the
  subscript.
\<close>

definition entry_or :: "json \<Rightarrow> nat \<Rightarrow> json \<Rightarrow> error + json" where
  "entry_or v idx dflt =
     bind_err (py_len v) (\<lambda>n. if idx < n then py_subscript v idx else Inr dflt)"

text \<open>
  The operand of \<open>v is not None and v >= 32\<close>: \<open>None\<close>, for which the comparison is not
  made, or what the comparison needs of it. A null entry is \<open>None\<close>.
\<close>

definition opt_number :: "json \<Rightarrow> error + real option" where
  "opt_number v = (if v \<noteq> JNull then bind_err (py_number v) (\<lambda>r. Inr (Some r)) else Inr None)"

section \<open>services/weather_client.py: the daily forecast\<close>

record forecast_day =
  fd_date :: date
  temp_max :: real
  temp_min :: real
  precip_prob :: int
  summary :: string
  advice :: string

text \<open>The en dash of the advice texts, as its three UTF-8 bytes.\<close>

abbreviation en_dash :: string where
  "en_dash \<equiv> [CHR 0xE2, CHR 0x80, CHR 0x93]"

abbreviation advice_clear :: string where
  "advice_clear \<equiv> ''Good weather '' @ en_dash @ '' great day for walking and outdoor plans.''"

abbreviation advice_rain :: string where
  "advice_rain \<equiv> ''Heavy rain expected '' @ en_dash @ '' plan indoor activities or rideshares.''"

abbreviation advice_showers :: string where
  "advice_showers \<equiv>
     ''Chance of showers '' @ en_dash @ '' keep an umbrella handy and have a backup indoor option.''"

abbreviation advice_hot :: string where
  "advice_hot \<equiv> ''Very hot '' @ en_dash @ '' schedule outdoor activities early and stay hydrated.''"

abbreviation advice_cold :: string where
  "advice_cold \<equiv> ''Cold weather '' @ en_dash @ '' bring layers and keep walks shorter.''"

text \<open>
  Lines 52 to 63 of \<open>fetch_daily_forecast\<close>: the summary and the advice of one day, from
  the probability and the two temperatures (\<open>None\<close> when the array has no entry). The
  assignments are kept in the order of the source, each later one overwriting \<open>advice\<close>.
\<close>

definition classify :: "real \<Rightarrow> real option \<Rightarrow> real option \<Rightarrow> string \<times> string" where
  "classify prob hi lo =
     (let (summary0, advice0) =
            (if prob \<ge> 70 then (''Rainy'', advice_rain)
             else if prob \<ge> 40 then (''Cloudy'', advice_showers)
             else (''Clear'', advice_clear));
          advice1 = (if hi \<noteq> None \<and> the hi \<ge> 32 then advice_hot else advice0);
          advice2 = (if lo \<noteq> None \<and> the lo \<le> 35 then advice_cold else advice1)
      in (summary0, advice2))"

text \<open>
  The body of the loop (lines 49 to 74), for the index \<open>idx\<close> and the item \<open>d\<close> of
  \<open>dates\<close>, on whatever values the response holds. The steps are in the order Python
  evaluates them, so the first failure is Python's: the three reads (\<open>len\<close> before the
  subscript, the default 0 or \<open>None\<close> beyond the end), the comparison of \<open>prob\<close>, the
  comparisons of \<open>hi\<close> and \<open>lo\<close> unless they are \<open>None\<close> (a null entry is \<open>None\<close> too),
  then \<open>date.fromisoformat(d)\<close> and the entry. The comparisons are those of \<open>classify\<close>,
  which is given the numbers once their operands are known to be numbers.
\<close>

definition forecast_entry ::
  "(string \<Rightarrow> date option) \<Rightarrow> json \<Rightarrow> json \<Rightarrow> json \<Rightarrow> nat \<Rightarrow> json \<Rightarrow> error + forecast_day" where
  "forecast_entry fromiso tmax tmin precip idx d =
     bind_err (entry_or precip idx (JNum 0)) (\<lambda>prob.
     bind_err (entry_or tmax idx JNull) (\<lambda>hi.
     bind_err (entry_or tmin idx JNull) (\<lambda>lo.
     bind_err (py_number prob) (\<lambda>prob_n.
     bind_err (opt_number hi) (\<lambda>hi_n.
     bind_err (opt_number lo) (\<lambda>lo_n.
     bind_err (date_fromisoformat fromiso d) (\<lambda>dt.
       Inr \<lparr>fd_date = dt,
            temp_max = (case hi_n of None \<Rightarrow> 0 | Some r \<Rightarrow> r),
            temp_min = (case lo_n of None \<Rightarrow> 0 | Some r \<Rightarrow> r),
            precip_prob = py_int prob_n,
            summary = fst (classify prob_n hi_n lo_n),
            advice = snd (classify prob_n hi_n lo_n)\<rparr>)))))))"

text \<open>\<open>for idx, d in enumerate(dates)\<close>, appending to \<open>results\<close>.\<close>

fun forecast_loop ::
  "(string \<Rightarrow> date option) \<Rightarrow> json \<Rightarrow> json \<Rightarrow> json \<Rightarrow> (nat \<times> json) list \<Rightarrow> forecast_day list
     \<Rightarrow> error + forecast_day list" where
  "forecast_loop fromiso tmax tmin precip [] results = Inr results"
| "forecast_loop fromiso tmax tmin precip ((idx, d) # rest) results =
     (case forecast_entry fromiso tmax tmin precip idx d of
        Inl e \<Rightarrow> Inl e
      | Inr r \<Rightarrow> forecast_loop fromiso tmax tmin precip rest (results @ [r]))"

text \<open>
  \<open>fetch_daily_forecast\<close>, from the outcome of the request. Inside the \<open>try\<close> block are the
  request and \<open>resp.json().get("daily", {})\<close>: an exception there, also the one of a body
  that has no \<open>get\<close>, returns the empty list. The four \<open>daily.get(key, [])\<close> and the loop
  come after the block: what they raise leaves the function.
\<close>

definition fetch_daily_forecast ::
  "(string \<Rightarrow> date option) \<Rightarrow> json outcome \<Rightarrow> error + forecast_day list" where
  "fetch_daily_forecast fromiso resp =
     (case resp of
        Raised \<Rightarrow> Inr []
      | Returned body \<Rightarrow>
          (case py_get body ''daily'' (JObj []) of
             Inl e \<Rightarrow> Inr []
           | Inr daily \<Rightarrow>
               bind_err (py_get daily ''time'' (JArr [])) (\<lambda>dates.
               bind_err (py_get daily ''temperature_2m_max'' (JArr [])) (\<lambda>tmax.
               bind_err (py_get daily ''temperature_2m_min'' (JArr [])) (\<lambda>tmin.
               bind_err (py_get daily ''precipitation_probability_max'' (JArr [])) (\<lambda>precip.
               bind_err (py_iter dates) (\<lambda>items.
                 forecast_loop fromiso tmax tmin precip (enumerate 0 items) [])))))))"

section \<open>services/weather_client.py: geocoding\<close>

text \<open>
  \<open>v[0]\<close> and \<open>v["key"]\<close>; \<open>None\<close> stands for the exception Python raises (IndexError,
  KeyError, TypeError), which the caller's \<open>except Exception\<close> catches.
\<close>

fun subscript0 :: "json \<Rightarrow> json option" where
  "subscript0 (JArr (x # xs)) = Some x"
| "subscript0 (JStr (c # cs)) = Some (JStr [c])"
| "subscript0 v = None"

fun subscript_key :: "json \<Rightarrow> string \<Rightarrow> json option" where
  "subscript_key (JObj kvs) k = map_of kvs k"
| "subscript_key v k = None"

text \<open>
  \<open>float(v)\<close>; \<open>None\<close> stands for TypeError or ValueError. Parsing a string as a float is
  Python's own, taken as the parameter \<open>str_float\<close>. Numbers are real numbers, those a
  float holds.
\<close>

fun py_float :: "(string \<Rightarrow> real option) \<Rightarrow> json \<Rightarrow> real option" where
  "py_float str_float (JNum r) = Some r"
| "py_float str_float (JBool b) = Some (if b then 1 else 0)"
| "py_float str_float (JStr s) = str_float s"
| "py_float str_float v = None"

text \<open>
  \<open>geocode_city\<close>, from the outcome of the request. Every exception of the \<open>try\<close> block
  ends in \<open>return None\<close>.
\<close>

definition geocode_city ::
  "(string \<Rightarrow> real option) \<Rightarrow> json outcome \<Rightarrow> (real \<times> real) option" where
  "geocode_city str_float resp =
     (case resp of
        Raised \<Rightarrow> None
      | Returned data \<Rightarrow>
          (case data of
             JObj kvs \<Rightarrow>
               (let got = (case map_of kvs ''results'' of None \<Rightarrow> JNull | Some v \<Rightarrow> v);
                    results = (if truthy got then got else JArr [])
                in if \<not> truthy results then None
                   else
                     (case subscript0 results of
                        None \<Rightarrow> None
                      | Some first \<Rightarrow>
                          (case Option.bind (subscript_key first ''latitude'') (py_float str_float) of
                             None \<Rightarrow> None
                           | Some lat \<Rightarrow>
                               (case Option.bind (subscript_key first ''longitude'')
                                       (py_float str_float) of
                                  None \<Rightarrow> None
                                | Some lon \<Rightarrow> Some (lat, lon)))))
           | _ \<Rightarrow> None))"

section \<open>The data store\<close>

text \<open>
  Modelled from the spec: \<open>app/models.py\<close> and \<open>app/db.py\<close> are not among the sources.
  The tables are lists of rows in store order, with the columns that the read schemas of
  \<open>schemas.py\<close> and the routers name.
\<close>

record trip =
  t_id :: int
  t_owner_id :: int
  t_name :: string
  t_destination :: string
  t_start_date :: date
  t_end_date :: date

record trip_member =
  m_id :: int
  m_trip_id :: int
  m_user_id :: int
  m_role :: string

record event =
  e_id :: int
  e_trip_id :: int
  e_date :: date
  e_start_time :: "clock option"
  e_title :: string
  e_type :: string

record budget_envelope =
  b_id :: int
  b_trip_id :: int
  b_category :: string
  b_planned_amount :: real

record expense =
  x_id :: int
  x_trip_id :: int
  x_envelope_id :: "int option"
  x_event_id :: "int option"
  x_description :: string
  x_amount :: real
  x_currency :: string
  x_spent_at_date :: date

record weather_alert =
  a_id :: int
  a_trip_id :: int
  a_date :: date
  a_severity :: string
  a_summary :: string

record db =
  trips :: "trip list"
  trip_members :: "trip_member list"
  events :: "event list"
  budget_envelopes :: "budget_envelope list"
  expenses :: "expense list"
  weather_alerts :: "weather_alert list"

text \<open>
  Modelled from the spec: the id of a new row is assigned by the store (``server-assigned
  id''); here one more than the largest id of the table, as an autoincrement key.
\<close>

definition next_id :: "int list \<Rightarrow> int" where
  "next_id ids = fold max ids 0 + 1"

text \<open>
  Modelled from the spec: the relationship \<open>trip.members\<close> is the query by foreign key
  (``lazy relationship traversal should become an explicit query-by-foreign-key'').
\<close>

definition members :: "db \<Rightarrow> trip \<Rightarrow> trip_member list" where
  "members d t = filter (\<lambda>m. m_trip_id m = t_id t) (trip_members d)"

text \<open>Assigning to an attribute of the row that \<open>.first()\<close> returned: the first match changes.\<close>

fun replace_first :: "('a \<Rightarrow> bool) \<Rightarrow> 'a \<Rightarrow> 'a list \<Rightarrow> 'a list" where
  "replace_first P y [] = []"
| "replace_first P y (x # xs) = (if P x then y # xs else x # replace_first P y xs)"

section \<open>routers/trips.py\<close>

record TripCreate =
  tc_owner_id :: "int option"
  tc_name :: string
  tc_destination :: string
  tc_start_date :: date
  tc_end_date :: date

text \<open>
  \<open>TripUpdate\<close> after \<open>model_dump(exclude_unset=True)\<close>: \<open>None\<close> is a field the request did
  not set. A field the request sets to null is outside the model.
\<close>

record TripUpdate =
  tu_name :: "string option"
  tu_destination :: "string option"
  tu_start_date :: "date option"
  tu_end_date :: "date option"

record TripMemberUpsert =
  user_id :: int
  role :: string

definition get_trip_or_404 :: "db \<Rightarrow> int \<Rightarrow> error + trip" where
  "get_trip_or_404 d trip_id =
     (case find (\<lambda>t. t_id t = trip_id) (trips d) of
        None \<Rightarrow> Inl (HTTPException 404 ''Trip not found'')
      | Some t \<Rightarrow> Inr t)"

definition ensure_member_or_owner :: "db \<Rightarrow> trip \<Rightarrow> int \<Rightarrow> error + unit" where
  "ensure_member_or_owner d t uid =
     (let is_owner = (t_owner_id t = uid);
          is_member = list_ex (\<lambda>member. m_user_id member = uid) (members d t)
      in if \<not> (is_owner \<or> is_member)
         then Inl (HTTPException 403 ''Not authorized for this trip'')
         else Inr ())"

definition ensure_owner :: "trip \<Rightarrow> int \<Rightarrow> error + unit" where
  "ensure_owner t uid =
     (if t_owner_id t \<noteq> uid
      then Inl (HTTPException 403 ''Only owner can perform this action'')
      else Inr ())"

definition create_trip :: "db \<Rightarrow> TripCreate \<Rightarrow> int \<Rightarrow> trip \<times> db" where
  "create_trip d payload current_user =
     (let t = \<lparr>t_id = next_id (map t_id (trips d)),
               t_owner_id = current_user,
               t_name = tc_name payload,
               t_destination = tc_destination payload,
               t_start_date = tc_start_date payload,
               t_end_date = tc_end_date payload\<rparr>
      in (t, d\<lparr>trips := trips d @ [t]\<rparr>))"

definition get_trip :: "db \<Rightarrow> int \<Rightarrow> int \<Rightarrow> error + trip" where
  "get_trip d trip_id current_user =
     (case get_trip_or_404 d trip_id of
        Inl e \<Rightarrow> Inl e
      | Inr t \<Rightarrow>
          (case ensure_member_or_owner d t current_user of
             Inl e \<Rightarrow> Inl e
           | Inr _ \<Rightarrow> Inr t))"

definition apply_update :: "TripUpdate \<Rightarrow> trip \<Rightarrow> trip" where
  "apply_update payload t =
     t\<lparr>t_name := (case tu_name payload of None \<Rightarrow> t_name t | Some v \<Rightarrow> v),
       t_destination := (case tu_destination payload of None \<Rightarrow> t_destination t | Some v \<Rightarrow> v),
       t_start_date := (case tu_start_date payload of None \<Rightarrow> t_start_date t | Some v \<Rightarrow> v),
       t_end_date := (case tu_end_date payload of None \<Rightarrow> t_end_date t | Some v \<Rightarrow> v)\<rparr>"

definition update_trip :: "db \<Rightarrow> int \<Rightarrow> TripUpdate \<Rightarrow> int \<Rightarrow> (error + trip) \<times> db" where
  "update_trip d trip_id payload current_user =
     (case get_trip_or_404 d trip_id of
        Inl e \<Rightarrow> (Inl e, d)
      | Inr t \<Rightarrow>
          (case ensure_owner t current_user of
             Inl e \<Rightarrow> (Inl e, d)
           | Inr _ \<Rightarrow>
               (let t' = apply_update payload t
                in (Inr t', d\<lparr>trips := replace_first (\<lambda>r. t_id r = trip_id) t' (trips d)\<rparr>))))"

text \<open>
  Modelled from the spec: what \<open>db.delete(trip)\<close> does to the rows a trip owns is declared
  in \<open>models.py\<close>; the spec has ``cascade-delete intended'', so the rows of the trip go
  with it.
\<close>

definition delete_trip :: "db \<Rightarrow> int \<Rightarrow> int \<Rightarrow> (error + unit) \<times> db" where
  "delete_trip d trip_id current_user =
     (case get_trip_or_404 d trip_id of
        Inl e \<Rightarrow> (Inl e, d)
      | Inr t \<Rightarrow>
          (case ensure_owner t current_user of
             Inl e \<Rightarrow> (Inl e, d)
           | Inr _ \<Rightarrow>
               (Inr (),
                d\<lparr>trips := remove1 t (trips d),
                  trip_members := filter (\<lambda>m. m_trip_id m \<noteq> t_id t) (trip_members d),
                  events := filter (\<lambda>e. e_trip_id e \<noteq> t_id t) (events d),
                  budget_envelopes := filter (\<lambda>b. b_trip_id b \<noteq> t_id t) (budget_envelopes d),
                  expenses := filter (\<lambda>x. x_trip_id x \<noteq> t_id t) (expenses d),
                  weather_alerts := filter (\<lambda>a. a_trip_id a \<noteq> t_id t) (weather_alerts d)\<rparr>)))"

definition list_trip_members :: "db \<Rightarrow> int \<Rightarrow> int \<Rightarrow> error + trip_member list" where
  "list_trip_members d trip_id current_user =
     (case get_trip_or_404 d trip_id of
        Inl e \<Rightarrow> Inl e
      | Inr t \<Rightarrow>
          (case ensure_member_or_owner d t current_user of
             Inl e \<Rightarrow> Inl e
           | Inr _ \<Rightarrow> Inr (members d t)))"

definition add_or_update_member ::
  "db \<Rightarrow> int \<Rightarrow> TripMemberUpsert \<Rightarrow> int \<Rightarrow> (error + trip_member) \<times> db" where
  "add_or_update_member d trip_id payload current_user =
     (case get_trip_or_404 d trip_id of
        Inl e \<Rightarrow> (Inl e, d)
      | Inr t \<Rightarrow>
          (case ensure_owner t current_user of
             Inl e \<Rightarrow> (Inl e, d)
           | Inr _ \<Rightarrow>
               (let same = (\<lambda>m. m_trip_id m = trip_id \<and> m_user_id m = user_id payload)
                in case find same (trip_members d) of
                     Some member \<Rightarrow>
                       (let member' = member\<lparr>m_role := role payload\<rparr>
                        in (Inr member',
                            d\<lparr>trip_members := replace_first same member' (trip_members d)\<rparr>))
                   | None \<Rightarrow>
                       (let member = \<lparr>m_id = next_id (map m_id (trip_members d)),
                                      m_trip_id = trip_id,
                                      m_user_id = user_id payload,
                                      m_role = role payload\<rparr>
                        in (Inr member, d\<lparr>trip_members := trip_members d @ [member]\<rparr>)))))"

definition delete_member :: "db \<Rightarrow> int \<Rightarrow> int \<Rightarrow> int \<Rightarrow> (error + unit) \<times> db" where
  "delete_member d trip_id uid current_user =
     (case get_trip_or_404 d trip_id of
        Inl e \<Rightarrow> (Inl e, d)
      | Inr t \<Rightarrow>
          (case ensure_owner t current_user of
             Inl e \<Rightarrow> (Inl e, d)
           | Inr _ \<Rightarrow>
               (case find (\<lambda>m. m_trip_id m = trip_id \<and> m_user_id m = uid) (trip_members d) of
                  None \<Rightarrow> (Inl (HTTPException 404 ''Member not found''), d)
                | Some member \<Rightarrow>
                    (Inr (), d\<lparr>trip_members := remove1 member (trip_members d)\<rparr>))))"

text \<open>
  The exported document, as the values each \<open>drawString\<close> formats: the header, one line
  per event, per envelope and per alert. The cursor \<open>y\<close> and the page breaks it decides
  are layout and are left out. Amounts are real numbers: the rounding of Python's floats
  is not modelled. \<open>order_by(Event.date, Event.start_time)\<close> is a stable sort with the
  events without a start time first, as SQLite, the store of \<open>config.py\<close>, orders NULL.
\<close>

record pdf_document =
  doc_name :: string
  doc_destination :: string
  doc_dates :: "date \<times> date"
  event_lines :: "(date \<times> string \<times> string \<times> clock option) list"
  budget_lines :: "(string \<times> real \<times> real) list"
  alert_lines :: "(date \<times> string \<times> string) list"

text \<open>\<open>sum(exp.amount for exp in expenses if exp.envelope_id == env.id)\<close>, from 0, left to right.\<close>

definition actual :: "expense list \<Rightarrow> budget_envelope \<Rightarrow> real" where
  "actual exps env =
     foldl (+) 0 (map x_amount (filter (\<lambda>exp. x_envelope_id exp = Some (b_id env)) exps))"

definition export_trip_pdf :: "db \<Rightarrow> int \<Rightarrow> int \<Rightarrow> error + pdf_document" where
  "export_trip_pdf d trip_id current_user =
     (case get_trip_or_404 d trip_id of
        Inl e \<Rightarrow> Inl e
      | Inr t \<Rightarrow>
          (case ensure_member_or_owner d t current_user of
             Inl e \<Rightarrow> Inl e
           | Inr _ \<Rightarrow>
               (let evs = sort_key (\<lambda>e. (e_date e, e_start_time e))
                            (filter (\<lambda>e. e_trip_id e = trip_id) (events d));
                    envelopes = filter (\<lambda>b. b_trip_id b = trip_id) (budget_envelopes d);
                    exps = filter (\<lambda>x. x_trip_id x = trip_id) (expenses d);
                    alerts = filter (\<lambda>a. a_trip_id a = trip_id) (weather_alerts d)
                in Inr \<lparr>doc_name = t_name t,
                        doc_destination = t_destination t,
                        doc_dates = (t_start_date t, t_end_date t),
                        event_lines = map (\<lambda>e. (e_date e, e_title e, e_type e, e_start_time e)) evs,
                        budget_lines =
                          map (\<lambda>env. (b_category env, b_planned_amount env, actual exps env)) envelopes,
                        alert_lines = map (\<lambda>a. (a_date a, a_severity a, a_summary a)) alerts\<rparr>)))"

section \<open>routers/weather.py\<close>

record TripWeatherResponse =
  city :: string
  start_date :: date
  end_date :: date
  days :: "forecast_day list"

definition user_role_for_trip :: "db \<Rightarrow> trip \<Rightarrow> int \<Rightarrow> string option" where
  "user_role_for_trip d t uid =
     (if t_owner_id t = uid then Some ''owner''
      else (case find (\<lambda>m. m_user_id m = uid) (members d t) of
              None \<Rightarrow> None
            | Some membership \<Rightarrow> Some (m_role membership)))"

text \<open>\<open>if not role\<close>: \<open>None\<close> and the empty string are both false.\<close>

definition require_view_access :: "db \<Rightarrow> trip \<Rightarrow> int \<Rightarrow> error + unit" where
  "require_view_access d t uid =
     (case user_role_for_trip d t uid of
        None \<Rightarrow> Inl (HTTPException 403 ''Not authorized for this trip'')
      | Some r \<Rightarrow>
          (if r = [] then Inl (HTTPException 403 ''Not authorized for this trip'') else Inr ()))"

text \<open>
  \<open>trip_weather\<close>, given what the two requests to the providers deliver. \<open>_get_trip\<close> of this
  router is \<open>_get_trip_or_404\<close> of the trips router, with the same status and detail.
\<close>

definition trip_weather ::
  "db \<Rightarrow> int \<Rightarrow> int \<Rightarrow> (string \<Rightarrow> real option) \<Rightarrow> json outcome
     \<Rightarrow> (string \<Rightarrow> date option) \<Rightarrow> json outcome \<Rightarrow> error + TripWeatherResponse" where
  "trip_weather d trip_id current_user str_float geo_resp fromiso forecast_resp =
     (case get_trip_or_404 d trip_id of
        Inl e \<Rightarrow> Inl e
      | Inr t \<Rightarrow>
          (case require_view_access d t current_user of
             Inl e \<Rightarrow> Inl e
           | Inr _ \<Rightarrow>
               (case geocode_city str_float geo_resp of
                  None \<Rightarrow>
                    Inl (HTTPException 404
                          (''Could not find location for this trip'' @ [CHR 0x27] @ ''s destination''))
                | Some coords \<Rightarrow>
                    (case fetch_daily_forecast fromiso forecast_resp of
                       Inl e \<Rightarrow> Inl e
                     | Inr dys \<Rightarrow>
                         Inr \<lparr>city = t_destination t,
                              start_date = t_start_date t,
                              end_date = t_end_date t,
                              days = dys\<rparr>))))"

section \<open>Auxiliary definitions of the proofs\<close>

text \<open>
  The content of a response that follows the provider's schema: the dates that its
  \<open>time\<close> strings denote and the numbers of its three measurement arrays, which may
  have any lengths.
\<close>

record daily =
  time :: "date list"
  temperature_2m_max :: "real list"
  temperature_2m_min :: "real list"
  precipitation_probability_max :: "real list"

text \<open>The date a \<open>time\<close> item denotes, if it is a string that is an ISO date.\<close>

fun date_of :: "(string \<Rightarrow> date option) \<Rightarrow> json \<Rightarrow> date option" where
  "date_of fromiso (JStr s) = fromiso s"
| "date_of fromiso v = None"

text \<open>
  \<open>follows_schema fromiso body dl\<close>: the body is an object whose \<open>daily\<close> is an object (or
  is missing), whose \<open>time\<close> is an array of ISO dates, those of \<open>dl\<close>, and whose
  measurement arrays are arrays of the numbers of \<open>dl\<close>; a key that is missing stands
  for the empty array, as \<open>get\<close> reads it.
\<close>

definition follows_schema :: "(string \<Rightarrow> date option) \<Rightarrow> json \<Rightarrow> daily \<Rightarrow> bool" where
  "follows_schema fromiso body dl =
     (case body of
        JObj kvs \<Rightarrow>
          (case dict_get kvs ''daily'' (JObj []) of
             JObj dkvs \<Rightarrow>
               (case dict_get dkvs ''time'' (JArr []) of
                  JArr ts \<Rightarrow> map (date_of fromiso) ts = map Some (time dl)
                | _ \<Rightarrow> False)
             \<and> dict_get dkvs ''temperature_2m_max'' (JArr []) = JArr (map JNum (temperature_2m_max dl))
             \<and> dict_get dkvs ''temperature_2m_min'' (JArr []) = JArr (map JNum (temperature_2m_min dl))
             \<and> dict_get dkvs ''precipitation_probability_max'' (JArr [])
                 = JArr (map JNum (precipitation_probability_max dl))
           | _ \<Rightarrow> False)
      | _ \<Rightarrow> False)"

text \<open>A temperature entry the loop accepts: a number, or null, which it reads as \<open>None\<close>.\<close>

fun temp_entry :: "json \<Rightarrow> bool" where
  "temp_entry JNull = True"
| "temp_entry (JNum r) = True"
| "temp_entry v = False"

definition temp_at :: "json list \<Rightarrow> nat \<Rightarrow> real option" where
  "temp_at xs i =
     (if i < length xs then (case xs ! i of JNum r \<Rightarrow> Some r | _ \<Rightarrow> None) else None)"

text \<open>
  The day the loop body builds from dates, probabilities and temperature entries that
  it accepts.
\<close>

definition day_of :: "date list \<Rightarrow> real list \<Rightarrow> json list \<Rightarrow> json list \<Rightarrow> nat \<Rightarrow> forecast_day" where
  "day_of dates ps hs ls i =
     (let prob = (if i < length ps then ps ! i else 0);
          hi = temp_at hs i;
          lo = temp_at ls i
      in \<lparr>fd_date = dates ! i,
          temp_max = (case hi of None \<Rightarrow> 0 | Some r \<Rightarrow> r),
          temp_min = (case lo of None \<Rightarrow> 0 | Some r \<Rightarrow> r),
          precip_prob = py_int prob,
          summary = fst (classify prob hi lo),
          advice = snd (classify prob hi lo)\<rparr>)"

text \<open>The same day, from the content of a response that follows the schema.\<close>

definition day_at :: "daily \<Rightarrow> nat \<Rightarrow> forecast_day" where
  "day_at dl i =
     (let prob = (if i < length (precipitation_probability_max dl)
                  then precipitation_probability_max dl ! i else 0);
          hi = (if i < length (temperature_2m_max dl) then Some (temperature_2m_max dl ! i) else None);
          lo = (if i < length (temperature_2m_min dl) then Some (temperature_2m_min dl ! i) else None)
      in \<lparr>fd_date = time dl ! i,
          temp_max = (if hi \<noteq> None then the hi else 0),
          temp_min = (if lo \<noteq> None then the lo else 0),
          precip_prob = py_int prob,
          summary = fst (classify prob hi lo),
          advice = snd (classify prob hi lo)\<rparr>)"

text \<open>The probability the loop reads for day \<open>i\<close>, and the advice precipitation alone sets.\<close>

definition prob_at :: "daily \<Rightarrow> nat \<Rightarrow> real" where
  "prob_at dl i =
     (if i < length (precipitation_probability_max dl)
      then precipitation_probability_max dl ! i else 0)"

definition precip_advice :: "real \<Rightarrow> string" where
  "precip_advice prob =
     (if prob \<ge> 70 then advice_rain else if prob \<ge> 40 then advice_showers else advice_clear)"

text \<open>
  The body with the given \<open>time\<close> strings and the measurements of \<open>dl\<close>, and a reading of
  three ISO dates for the examples.
\<close>

definition body_of :: "string list \<Rightarrow> daily \<Rightarrow> json" where
  "body_of ss dl =
     JObj [(''daily'',
            JObj [(''time'', JArr (map JStr ss)),
                  (''temperature_2m_max'', JArr (map JNum (temperature_2m_max dl))),
                  (''temperature_2m_min'', JArr (map JNum (temperature_2m_min dl))),
                  (''precipitation_probability_max'',
                     JArr (map JNum (precipitation_probability_max dl)))])]"

definition iso_demo :: "string \<Rightarrow> date option" where
  "iso_demo = map_of [(''2025-06-01'', (2025, 6, 1)),
                      (''2025-06-02'', (2025, 6, 2)),
                      (''2025-06-03'', (2025, 6, 3))]"

text \<open>Ragged responses: three dates with two entries per measurement, and so on.\<close>

definition ragged3 :: daily where
  "ragged3 = \<lparr>time = [(2025, 6, 1), (2025, 6, 2), (2025, 6, 3)],
              temperature_2m_max = [20, 21],
              temperature_2m_min = [36, 37],
              precipitation_probability_max = [80, 10]\<rparr>"

definition ragged3_body :: json where
  "ragged3_body = body_of [''2025-06-01'', ''2025-06-02'', ''2025-06-03''] ragged3"

definition no_temps_day2 :: daily where
  "no_temps_day2 = \<lparr>time = [(2025, 6, 1), (2025, 6, 2)],
                    temperature_2m_max = [20],
                    temperature_2m_min = [36],
                    precipitation_probability_max = [10, 80]\<rparr>"

definition no_temps_day2_body :: json where
  "no_temps_day2_body = body_of [''2025-06-01'', ''2025-06-02''] no_temps_day2"

definition no_tmax_day1 :: daily where
  "no_tmax_day1 = \<lparr>time = [(2025, 6, 1)],
                   temperature_2m_max = [],
                   temperature_2m_min = [10],
                   precipitation_probability_max = [80]\<rparr>"

definition no_tmax_day1_body :: json where
  "no_tmax_day1_body = body_of [''2025-06-01''] no_tmax_day1"




text \<open>
  A ragged response within what the loop accepts: the second maximum is null and the
  third day has no precipitation entry and no minimum.
\<close>

definition null_temp_body :: json where
  "null_temp_body =
     JObj [(''daily'',
            JObj [(''time'', JArr [JStr ''2025-06-01'', JStr ''2025-06-02'', JStr ''2025-06-03'']),
                  (''temperature_2m_max'', JArr [JNum 20, JNull, JNum 22]),
                  (''temperature_2m_min'', JArr [JNum 36, JNum 37]),
                  (''precipitation_probability_max'', JArr [JNum 80, JNum 10])])]"

definition null_temp_days :: "forecast_day list" where
  "null_temp_days =
     [\<lparr>fd_date = (2025, 6, 1), temp_max = 20, temp_min = 36, precip_prob = 80,
       summary = ''Rainy'', advice = advice_rain\<rparr>,
      \<lparr>fd_date = (2025, 6, 2), temp_max = 0, temp_min = 37, precip_prob = 10,
       summary = ''Clear'', advice = advice_clear\<rparr>,
      \<lparr>fd_date = (2025, 6, 3), temp_max = 22, temp_min = 0, precip_prob = 0,
       summary = ''Clear'', advice = advice_clear\<rparr>]"

text \<open>A store with one trip, its owner 1, two members and a budget.\<close>

definition demo_trip :: trip where
  "demo_trip = \<lparr>t_id = 1, t_owner_id = 1, t_name = ''Spring break'', t_destination = ''Lisbon'',
                t_start_date = (2025, 6, 1), t_end_date = (2025, 6, 3)\<rparr>"

definition demo_db :: db where
  "demo_db =
     \<lparr>trips = [demo_trip],
      trip_members = [\<lparr>m_id = 1, m_trip_id = 1, m_user_id = 2, m_role = ''viewer''\<rparr>,
                      \<lparr>m_id = 2, m_trip_id = 1, m_user_id = 3, m_role = ''''\<rparr>],
      events = [],
      budget_envelopes = [\<lparr>b_id = 1, b_trip_id = 1, b_category = ''Food'', b_planned_amount = 100\<rparr>,
                          \<lparr>b_id = 2, b_trip_id = 1, b_category = ''Museums'', b_planned_amount = 40\<rparr>],
      expenses = [\<lparr>x_id = 1, x_trip_id = 1, x_envelope_id = Some 1, x_event_id = None,
                    x_description = ''Lunch'', x_amount = 12, x_currency = ''USD'',
                    x_spent_at_date = (2025, 6, 1)\<rparr>,
                  \<lparr>x_id = 2, x_trip_id = 1, x_envelope_id = None, x_event_id = None,
                    x_description = ''Taxi'', x_amount = 30, x_currency = ''USD'',
                    x_spent_at_date = (2025, 6, 1)\<rparr>,
                  \<lparr>x_id = 3, x_trip_id = 1, x_envelope_id = Some 2, x_event_id = None,
                    x_description = ''Ticket'', x_amount = 15, x_currency = ''USD'',
                    x_spent_at_date = (2025, 6, 2)\<rparr>,
                  \<lparr>x_id = 4, x_trip_id = 1, x_envelope_id = Some 1, x_event_id = None,
                    x_description = ''Dinner'', x_amount = 25, x_currency = ''USD'',
                    x_spent_at_date = (2025, 6, 2)\<rparr>],
      weather_alerts = []\<rparr>"

text \<open>The details of the three refusals the theorems name.\<close>

abbreviation could_not_find :: string where
  "could_not_find \<equiv> ''Could not find location for this trip'' @ [CHR 0x27] @ ''s destination''"

abbreviation forbidden_view :: error where
  "forbidden_view \<equiv> HTTPException 403 ''Not authorized for this trip''"

abbreviation forbidden_owner :: error where
  "forbidden_owner \<equiv> HTTPException 403 ''Only owner can perform this action''"

section \<open>Lists, ids and sums\<close>

lemma find_list_ex: "list_ex P xs \<Longrightarrow> \<exists>x. find P xs = Some x \<and> P x"
  by (induction xs) auto

lemma find_not_list_ex: "\<not> list_ex P xs \<Longrightarrow> find P xs = None"
  by (induction xs) auto

lemma find_append_None: "find P xs = None \<Longrightarrow> find P (xs @ ys) = find P ys"
  by (induction xs) (auto split: if_splits)

lemma replace_first_split:
  "find P xs = Some x \<Longrightarrow>
   \<exists>pre post. xs = pre @ x # post \<and> \<not> list_ex P pre \<and> replace_first P y xs = pre @ y # post"
proof (induction xs)
  case Nil
  then show ?case by simp
next
  case (Cons a xs)
  show ?case
  proof (cases "P a")
    case True
    with Cons.prems have "a = x" by simp
    with True have "a # xs = [] @ x # xs \<and> \<not> list_ex P [] \<and> replace_first P y (a # xs) = [] @ y # xs"
      by simp
    then show ?thesis by blast
  next
    case False
    with Cons.prems have "find P xs = Some x" by simp
    from Cons.IH [OF this] obtain pre post where
      "xs = pre @ x # post" "\<not> list_ex P pre" "replace_first P y xs = pre @ y # post"
      by blast
    with False have "a # xs = (a # pre) @ x # post \<and> \<not> list_ex P (a # pre)
        \<and> replace_first P y (a # xs) = (a # pre) @ y # post"
      by simp
    then show ?thesis by blast
  qed
qed

lemma fold_max_ge: "(a::int) \<le> fold max xs a \<and> (\<forall>x \<in> set xs. x \<le> fold max xs a)"
proof (induction xs arbitrary: a)
  case Nil
  then show ?case by simp
next
  case (Cons y ys)
  have "max y a \<le> fold max ys (max y a)" using Cons.IH by blast
  moreover have "\<forall>x \<in> set ys. x \<le> fold max ys (max y a)" using Cons.IH by blast
  ultimately show ?case by auto
qed

lemma next_id_fresh: "next_id ids \<notin> set ids"
proof
  assume "next_id ids \<in> set ids"
  then have "next_id ids \<le> fold max ids 0" using fold_max_ge by blast
  then show False by (simp add: next_id_def)
qed

lemma foldl_plus_sum_list: "foldl (+) (a::real) xs = a + sum_list xs"
  by (induction xs arbitrary: a) simp_all

section \<open>The forecast parser on responses that follow the schema\<close>

lemma date_of_Some: "date_of fromiso v = Some d \<Longrightarrow> date_fromisoformat fromiso v = Inr d"
  by (cases v) auto

lemma bind_err_Inr: "bind_err (Inr x) f = f x"
  by (simp add: bind_err_def)

lemma entry_or_array:
  "entry_or (JArr xs) i dflt = Inr (if i < length xs then xs ! i else dflt)"
  by (simp add: entry_or_def bind_err_def)

lemma temp_entry_number:
  "temp_entry v \<Longrightarrow> opt_number v = Inr (case v of JNum r \<Rightarrow> Some r | _ \<Rightarrow> None)"
  by (cases v) (simp_all add: opt_number_def bind_err_def)

lemma temp_read:
  assumes "list_all temp_entry xs"
  shows "opt_number (if i < length xs then xs ! i else JNull) = Inr (temp_at xs i)"
proof (cases "i < length xs")
  case True
  with assms have "temp_entry (xs ! i)" by (simp add: list_all_length)
  from temp_entry_number [OF this] True show ?thesis by (simp add: temp_at_def)
next
  case False
  then show ?thesis by (simp add: temp_at_def opt_number_def)
qed

lemma forecast_entry_accepts:
  assumes "date_of fromiso t = Some dt"
    and "list_all temp_entry hs" and "list_all temp_entry ls"
  shows "forecast_entry fromiso (JArr hs) (JArr ls) (JArr (map JNum ps)) i t =
     Inr \<lparr>fd_date = dt,
          temp_max = (case temp_at hs i of None \<Rightarrow> 0 | Some r \<Rightarrow> r),
          temp_min = (case temp_at ls i of None \<Rightarrow> 0 | Some r \<Rightarrow> r),
          precip_prob = py_int (if i < length ps then ps ! i else 0),
          summary = fst (classify (if i < length ps then ps ! i else 0) (temp_at hs i) (temp_at ls i)),
          advice = snd (classify (if i < length ps then ps ! i else 0) (temp_at hs i) (temp_at ls i))\<rparr>"
proof -
  have p: "py_number (if i < length ps then map JNum ps ! i else JNum 0)
           = Inr (if i < length ps then ps ! i else 0)"
    by simp
  show ?thesis
    unfolding forecast_entry_def entry_or_array
    by (simp only: bind_err_Inr length_map p temp_read [OF assms(2)] temp_read [OF assms(3)]
          date_of_Some [OF assms(1)])
qed

lemma forecast_loop_accepts:
  assumes "map (date_of fromiso) ts = map Some dates"
    and "list_all temp_entry hs" and "list_all temp_entry ls"
    and "\<forall>i \<in> set is. i < length ts"
  shows "forecast_loop fromiso (JArr hs) (JArr ls) (JArr (map JNum ps))
           (map (\<lambda>i. (i, ts ! i)) is) acc
         = Inr (acc @ map (day_of dates ps hs ls) is)"
  using assms(4)
proof (induction "is" arbitrary: acc)
  case Nil
  then show ?case by simp
next
  case (Cons i "is")
  from Cons.prems have i: "i < length ts" by simp
  have "map (date_of fromiso) ts ! i = map Some dates ! i" using assms(1) by simp
  moreover have "length ts = length dates" using assms(1) by (rule map_eq_imp_length_eq)
  ultimately have d: "date_of fromiso (ts ! i) = Some (dates ! i)" using i by simp
  have e: "forecast_entry fromiso (JArr hs) (JArr ls) (JArr (map JNum ps)) i (ts ! i)
           = Inr (day_of dates ps hs ls i)"
    using forecast_entry_accepts [OF d assms(2) assms(3), of ps i]
    by (simp add: day_of_def Let_def)
  from Cons.prems have "\<forall>i \<in> set is. i < length ts" by simp
  from Cons.IH [OF this] e show ?case by simp
qed

lemma enumerate_as_map: "enumerate 0 xs = map (\<lambda>i. (i, xs ! i)) [0..<length xs]"
  by (rule nth_equalityI) (simp_all add: nth_enumerate_eq)

lemma fetch_accepts:
  assumes "body = JObj kvs" and "dict_get kvs ''daily'' (JObj []) = JObj dkvs"
    and "dict_get dkvs ''time'' (JArr []) = JArr ts"
    and "map (date_of fromiso) ts = map Some dates"
    and "dict_get dkvs ''precipitation_probability_max'' (JArr []) = JArr (map JNum ps)"
    and "dict_get dkvs ''temperature_2m_max'' (JArr []) = JArr hs" and "list_all temp_entry hs"
    and "dict_get dkvs ''temperature_2m_min'' (JArr []) = JArr ls" and "list_all temp_entry ls"
  shows "fetch_daily_forecast fromiso (Returned body)
         = Inr (map (day_of dates ps hs ls) [0..<length ts])"
proof -
  have "forecast_loop fromiso (JArr hs) (JArr ls) (JArr (map JNum ps)) (enumerate 0 ts) []
        = Inr (map (day_of dates ps hs ls) [0..<length ts])"
    using forecast_loop_accepts [OF assms(4) assms(7) assms(9), of "[0..<length ts]" ps "[]"]
    by (simp add: enumerate_as_map)
  then show ?thesis
    by (simp add: fetch_daily_forecast_def assms(1,2,3,5,6,8) bind_err_def)
qed

lemma follows_schemaD:
  assumes "follows_schema fromiso body dl"
  shows "\<exists>kvs dkvs ts.
      body = JObj kvs \<and> dict_get kvs ''daily'' (JObj []) = JObj dkvs
    \<and> dict_get dkvs ''time'' (JArr []) = JArr ts
    \<and> map (date_of fromiso) ts = map Some (time dl)
    \<and> dict_get dkvs ''precipitation_probability_max'' (JArr [])
        = JArr (map JNum (precipitation_probability_max dl))
    \<and> dict_get dkvs ''temperature_2m_max'' (JArr []) = JArr (map JNum (temperature_2m_max dl))
    \<and> dict_get dkvs ''temperature_2m_min'' (JArr []) = JArr (map JNum (temperature_2m_min dl))"
  using assms by (auto simp: follows_schema_def split: json.splits)

lemma temp_entry_numbers: "list_all temp_entry (map JNum xs)"
  by (simp add: list_all_iff)

lemma temp_at_numbers: "temp_at (map JNum xs) i = (if i < length xs then Some (xs ! i) else None)"
  by (simp add: temp_at_def)

lemma day_of_day_at:
  "day_of (time dl) (precipitation_probability_max dl) (map JNum (temperature_2m_max dl))
     (map JNum (temperature_2m_min dl)) i = day_at dl i"
  by (simp add: day_of_def day_at_def temp_at_numbers Let_def)

lemma fetch_daily_forecast_days:
  assumes "follows_schema fromiso body dl"
  shows "fetch_daily_forecast fromiso (Returned body) = Inr (map (day_at dl) [0..<length (time dl)])"
proof -
  from follows_schemaD [OF assms] obtain kvs dkvs ts where
    s: "body = JObj kvs" "dict_get kvs ''daily'' (JObj []) = JObj dkvs"
      "dict_get dkvs ''time'' (JArr []) = JArr ts"
      "map (date_of fromiso) ts = map Some (time dl)"
      "dict_get dkvs ''precipitation_probability_max'' (JArr [])
        = JArr (map JNum (precipitation_probability_max dl))"
      "dict_get dkvs ''temperature_2m_max'' (JArr []) = JArr (map JNum (temperature_2m_max dl))"
      "dict_get dkvs ''temperature_2m_min'' (JArr []) = JArr (map JNum (temperature_2m_min dl))"
    by blast
  have "length ts = length (time dl)" using s(4) by (rule map_eq_imp_length_eq)
  with fetch_accepts [OF s(1,2,3,4,5) s(6) temp_entry_numbers s(7) temp_entry_numbers]
  show ?thesis by (simp add: day_of_day_at)
qed

lemma follows_schema_body_of:
  "map fromiso ss = map Some (time dl) \<Longrightarrow> follows_schema fromiso (body_of ss dl) dl"
  by (simp add: follows_schema_def body_of_def dict_get_def comp_def)

lemma fetch_daily_forecast_Raised: "fetch_daily_forecast fromiso Raised = Inr []"
  by (simp add: fetch_daily_forecast_def)

lemma fetch_daily_forecast_total:
  "fc = Raised \<or> (fc = Returned body \<and> follows_schema fromiso body dl) \<Longrightarrow>
   \<exists>dys. fetch_daily_forecast fromiso fc = Inr dys"
  using fetch_daily_forecast_Raised [of fromiso] fetch_daily_forecast_days [of fromiso body dl]
  by auto

lemma py_int_ge: "0 < z \<Longrightarrow> (z \<le> py_int p) = (of_int z \<le> p)"
proof (cases "0 \<le> p")
  case True
  then show ?thesis by (simp add: py_int_def le_floor_iff)
next
  case False
  assume z: "0 < z"
  from False have "\<lceil>p\<rceil> \<le> 0" by (simp add: ceiling_le_iff)
  moreover from z False have "\<not> of_int z \<le> p" by simp
  ultimately have "\<not> z \<le> \<lceil>p\<rceil>" "\<not> of_int z \<le> p" using z by linarith+
  with False show ?thesis by (simp add: py_int_def)
qed

lemma precip_advice_int: "precip_advice (of_int (py_int p)) = precip_advice p"
  using py_int_ge [of 70 p] py_int_ge [of 40 p] by (simp add: precip_advice_def)

lemma forecast_entry_Inr:
  assumes "forecast_entry fromiso H L P i d = Inr day"
  shows "\<exists>pj hj lj p hv lv dt.
      entry_or P i (JNum 0) = Inr pj \<and> entry_or H i JNull = Inr hj \<and> entry_or L i JNull = Inr lj
    \<and> py_number pj = Inr p \<and> opt_number hj = Inr hv \<and> opt_number lj = Inr lv
    \<and> day = \<lparr>fd_date = dt,
             temp_max = (case hv of None \<Rightarrow> 0 | Some r \<Rightarrow> r),
             temp_min = (case lv of None \<Rightarrow> 0 | Some r \<Rightarrow> r),
             precip_prob = py_int p,
             summary = fst (classify p hv lv),
             advice = snd (classify p hv lv)\<rparr>"
  using assms by (auto simp: forecast_entry_def bind_err_def split: sum.splits)

lemma opt_number_cases:
  "opt_number v = Inr n \<Longrightarrow> (v = JNull \<and> n = None) \<or> (v \<noteq> JNull \<and> (\<exists>r. n = Some r))"
  by (auto simp: opt_number_def bind_err_def split: if_splits sum.splits)

lemma classify_no_max:
  "snd (classify p None lv) =
     (if lv \<noteq> None \<and> the lv \<le> 35 then advice_cold else precip_advice p)"
  by (simp add: classify_def precip_advice_def)

lemma classify_no_min:
  "snd (classify p hv None) =
     (if hv \<noteq> None \<and> the hv \<ge> 32 then advice_hot else precip_advice p)"
  by (simp add: classify_def precip_advice_def)

lemma day_without_max:
  assumes "forecast_entry fromiso H L P i d = Inr day" and "entry_or H i JNull = Inr JNull"
  shows "temp_max day = 0
       \<and> advice day =
           (if entry_or L i JNull \<noteq> Inr JNull \<and> temp_min day \<le> 35 then advice_cold
            else precip_advice (of_int (precip_prob day)))"
proof -
  from forecast_entry_Inr [OF assms(1)] obtain pj hj lj p hv lv dt where
    e: "entry_or H i JNull = Inr hj" "entry_or L i JNull = Inr lj"
      "opt_number hj = Inr hv" "opt_number lj = Inr lv"
    and pj: "entry_or P i (JNum 0) = Inr pj"
    and day: "day = \<lparr>fd_date = dt,
             temp_max = (case hv of None \<Rightarrow> 0 | Some r \<Rightarrow> r),
             temp_min = (case lv of None \<Rightarrow> 0 | Some r \<Rightarrow> r),
             precip_prob = py_int p,
             summary = fst (classify p hv lv),
             advice = snd (classify p hv lv)\<rparr>"
    by blast
  from e(1) assms(2) have "hj = JNull" by simp
  with e(3) have hv: "hv = None" using opt_number_cases by blast
  from opt_number_cases [OF e(4)] show ?thesis
    by (auto simp: day hv e(2) classify_no_max precip_advice_int)
qed

lemma day_without_min:
  assumes "forecast_entry fromiso H L P i d = Inr day" and "entry_or L i JNull = Inr JNull"
  shows "temp_min day = 0
       \<and> advice day =
           (if entry_or H i JNull \<noteq> Inr JNull \<and> temp_max day \<ge> 32 then advice_hot
            else precip_advice (of_int (precip_prob day)))"
proof -
  from forecast_entry_Inr [OF assms(1)] obtain pj hj lj p hv lv dt where
    e: "entry_or H i JNull = Inr hj" "entry_or L i JNull = Inr lj"
      "opt_number hj = Inr hv" "opt_number lj = Inr lv"
    and pj: "entry_or P i (JNum 0) = Inr pj"
    and day: "day = \<lparr>fd_date = dt,
             temp_max = (case hv of None \<Rightarrow> 0 | Some r \<Rightarrow> r),
             temp_min = (case lv of None \<Rightarrow> 0 | Some r \<Rightarrow> r),
             precip_prob = py_int p,
             summary = fst (classify p hv lv),
             advice = snd (classify p hv lv)\<rparr>"
    by blast
  from e(2) assms(2) have "lj = JNull" by simp
  with e(4) have lv: "lv = None" using opt_number_cases by blast
  from opt_number_cases [OF e(3)] show ?thesis
    by (auto simp: day lv e(1) classify_no_min precip_advice_int)
qed

lemma forecast_loop_Inr:
  "forecast_loop fromiso H L P items acc = Inr ds \<Longrightarrow>
   length ds = length acc + length items
   \<and> (\<forall>k < length items.
        forecast_entry fromiso H L P (fst (items ! k)) (snd (items ! k))
          = Inr (ds ! (length acc + k)))
   \<and> take (length acc) ds = acc"
proof (induction items arbitrary: acc)
  case Nil
  then show ?case by simp
next
  case (Cons it items)
  obtain idx d where it: "it = (idx, d)" by (cases it)
  from Cons.prems it obtain r where
    r: "forecast_entry fromiso H L P idx d = Inr r"
    and l: "forecast_loop fromiso H L P items (acc @ [r]) = Inr ds"
    by (auto split: sum.splits)
  from Cons.IH [OF l] have
    len: "length ds = length (acc @ [r]) + length items"
    and ents: "\<forall>k < length items.
        forecast_entry fromiso H L P (fst (items ! k)) (snd (items ! k))
          = Inr (ds ! (length (acc @ [r]) + k))"
    and tk: "take (length (acc @ [r])) ds = acc @ [r]"
    by blast+
  have a: "take (length acc) ds = acc"
  proof -
    have "take (length acc) (take (length (acc @ [r])) ds) = take (length acc) (acc @ [r])"
      using tk by simp
    then show ?thesis by simp
  qed
  have r0: "ds ! length acc = r"
  proof -
    have "take (length (acc @ [r])) ds ! length acc = (acc @ [r]) ! length acc" using tk by simp
    then show ?thesis by simp
  qed
  have "forecast_entry fromiso H L P (fst ((it # items) ! k)) (snd ((it # items) ! k))
          = Inr (ds ! (length acc + k))" if "k < length (it # items)" for k
  proof (cases k)
    case 0
    with r r0 it show ?thesis by simp
  next
    case (Suc j)
    with that have "j < length items" by simp
    with ents Suc show ?thesis by simp
  qed
  with len a show ?case by simp
qed

lemma fetch_Inr:
  assumes "fetch_daily_forecast fromiso (Returned (JObj kvs)) = Inr ds"
    and "dict_get kvs ''daily'' (JObj []) = JObj dkvs" and "i < length ds"
  shows "\<exists>d. forecast_entry fromiso
               (dict_get dkvs ''temperature_2m_max'' (JArr []))
               (dict_get dkvs ''temperature_2m_min'' (JArr []))
               (dict_get dkvs ''precipitation_probability_max'' (JArr [])) i d = Inr (ds ! i)"
proof -
  from assms(1,2) obtain items where
    l: "forecast_loop fromiso
          (dict_get dkvs ''temperature_2m_max'' (JArr []))
          (dict_get dkvs ''temperature_2m_min'' (JArr []))
          (dict_get dkvs ''precipitation_probability_max'' (JArr []))
          (enumerate 0 items) [] = Inr ds"
    by (auto simp: fetch_daily_forecast_def bind_err_def split: sum.splits)
  from forecast_loop_Inr [OF l] assms(3) have
    "forecast_entry fromiso
          (dict_get dkvs ''temperature_2m_max'' (JArr []))
          (dict_get dkvs ''temperature_2m_min'' (JArr []))
          (dict_get dkvs ''precipitation_probability_max'' (JArr []))
          (fst (enumerate 0 items ! i)) (snd (enumerate 0 items ! i)) = Inr (ds ! i)"
    and "i < length items"
    by auto
  then show ?thesis by (auto simp: nth_enumerate_eq)
qed

lemma day_at_date: "fd_date (day_at dl i) = time dl ! i"
  by (simp add: day_at_def Let_def)

lemma day_at_precip_missing:
  "length (precipitation_probability_max dl) \<le> i \<Longrightarrow> precip_prob (day_at dl i) = 0"
  by (simp add: day_at_def Let_def py_int_def)

lemma day_at_tmax_missing:
  "length (temperature_2m_max dl) \<le> i \<Longrightarrow> temp_max (day_at dl i) = 0"
  by (simp add: day_at_def Let_def)

lemma day_at_tmin_missing:
  "length (temperature_2m_min dl) \<le> i \<Longrightarrow> temp_min (day_at dl i) = 0"
  by (simp add: day_at_def Let_def)

lemma day_at_advice:
  "advice (day_at dl i) =
     (if i < length (temperature_2m_min dl) \<and> temperature_2m_min dl ! i \<le> 35 then advice_cold
      else if i < length (temperature_2m_max dl) \<and> temperature_2m_max dl ! i \<ge> 32 then advice_hot
      else precip_advice (prob_at dl i))"
  by (simp add: day_at_def Let_def classify_def precip_advice_def prob_at_def)




section \<open>Weather classification\<close>

text \<open>
  C2. With both temperatures present, the summary is decided by the probability alone
  (70 and above Rainy, 40 and above Cloudy, else Clear); the advice is the one of the
  last rule that fires in the order precipitation, heat (max at least 32), cold (min at
  most 35). For probability 50, max 20 and min 2 the result is Cloudy with the cold
  advice.
\<close>

theorem classify_priority:
  "classify prob (Some hi) (Some lo) =
     (if prob \<ge> 70 then ''Rainy'' else if prob \<ge> 40 then ''Cloudy'' else ''Clear'',
      if lo \<le> 35 then advice_cold
      else if hi \<ge> 32 then advice_hot
      else if prob \<ge> 70 then advice_rain
      else if prob \<ge> 40 then advice_showers
      else advice_clear)
   \<and> classify 50 (Some 20) (Some 2) = (''Cloudy'', advice_cold)"
  by (simp add: classify_def)

text \<open>
  C3. The code at the two inputs of the claim: for (80, 20, 10) it returns Rainy with the
  cold advice, not the rain advice, and for (10, 35, 10) Clear with the cold advice, not
  the heat advice, because a minimum of 10 is below the cold threshold 35.
\<close>

theorem classify_mild_days_get_cold_advice:
  "classify 80 (Some 20) (Some 10) = (''Rainy'', advice_cold)
   \<and> classify 10 (Some 35) (Some 10) = (''Clear'', advice_cold)
   \<and> advice_cold \<noteq> advice_rain \<and> advice_cold \<noteq> advice_hot"
  by (simp add: classify_def)

text \<open>
  C10, as stated, fails: a day whose max-temperature entry is missing while its
  min-temperature entry is 10 gets the cold advice, not the advice of its probability 80.
\<close>

theorem missing_tmax_counterexample:
  "follows_schema iso_demo no_tmax_day1_body no_tmax_day1
   \<and> length (temperature_2m_max no_tmax_day1) \<le> 0
   \<and> fetch_daily_forecast iso_demo (Returned no_tmax_day1_body) =
       Inr [\<lparr>fd_date = (2025, 6, 1), temp_max = 0, temp_min = 10, precip_prob = 80,
             summary = ''Rainy'', advice = advice_cold\<rparr>]
   \<and> advice_cold \<noteq> precip_advice 80"
  by (simp add: no_tmax_day1_body_def no_tmax_day1_def body_of_def iso_demo_def
        follows_schema_def fetch_daily_forecast_def dict_get_def bind_err_def enumerate_eq_zip
        forecast_entry_def entry_or_def opt_number_def classify_def py_int_def precip_advice_def)

text \<open>
  C10, amended. Each override is skipped for the temperature that is missing: without a
  max entry the heat rule does not fire, without a min entry the cold rule does not
  fire, and each returned temperature is then 0.0. The other override still applies when
  its entry is present; with both entries missing the advice is the one precipitation
  set. A temperature of 0.0, had it been classified, would give the cold advice. The
  first part states this of a response that follows the schema, in terms of its
  content; the second part states it of every day the parser returns, whatever the
  response, in terms of the day: there an entry is missing when it is beyond the end
  of its array or null, which the loop reads alike, and the probability is the one the
  day carries.
\<close>

theorem missing_temperature_skips_its_override:
  "(follows_schema fromiso body dl \<and> i < length (time dl) \<longrightarrow>
     (\<exists>ds. fetch_daily_forecast fromiso (Returned body) = Inr ds
        \<and> (length (temperature_2m_max dl) \<le> i \<longrightarrow>
              temp_max (ds ! i) = 0
            \<and> advice (ds ! i) =
                (if i < length (temperature_2m_min dl) \<and> temperature_2m_min dl ! i \<le> 35
                 then advice_cold else precip_advice (prob_at dl i)))
        \<and> (length (temperature_2m_min dl) \<le> i \<longrightarrow>
              temp_min (ds ! i) = 0
            \<and> advice (ds ! i) =
                (if i < length (temperature_2m_max dl) \<and> temperature_2m_max dl ! i \<ge> 32
                 then advice_hot else precip_advice (prob_at dl i)))
        \<and> (length (temperature_2m_max dl) \<le> i \<and> length (temperature_2m_min dl) \<le> i \<longrightarrow>
              advice (ds ! i) = precip_advice (prob_at dl i))
        \<and> snd (classify (prob_at dl i) (Some 0) (Some 0)) = advice_cold))
   \<and> (fetch_daily_forecast fromiso (Returned (JObj kvs)) = Inr dys
        \<and> dict_get kvs ''daily'' (JObj []) = JObj dkvs \<and> j < length dys \<longrightarrow>
        (entry_or (dict_get dkvs ''temperature_2m_max'' (JArr [])) j JNull = Inr JNull \<longrightarrow>
            temp_max (dys ! j) = 0
          \<and> advice (dys ! j) =
              (if entry_or (dict_get dkvs ''temperature_2m_min'' (JArr [])) j JNull \<noteq> Inr JNull
                  \<and> temp_min (dys ! j) \<le> 35
               then advice_cold else precip_advice (of_int (precip_prob (dys ! j)))))
      \<and> (entry_or (dict_get dkvs ''temperature_2m_min'' (JArr [])) j JNull = Inr JNull \<longrightarrow>
            temp_min (dys ! j) = 0
          \<and> advice (dys ! j) =
              (if entry_or (dict_get dkvs ''temperature_2m_max'' (JArr [])) j JNull \<noteq> Inr JNull
                  \<and> temp_max (dys ! j) \<ge> 32
               then advice_hot else precip_advice (of_int (precip_prob (dys ! j))))))"
proof -
  have A: "\<exists>ds. fetch_daily_forecast fromiso (Returned body) = Inr ds
        \<and> (length (temperature_2m_max dl) \<le> i \<longrightarrow>
              temp_max (ds ! i) = 0
            \<and> advice (ds ! i) =
                (if i < length (temperature_2m_min dl) \<and> temperature_2m_min dl ! i \<le> 35
                 then advice_cold else precip_advice (prob_at dl i)))
        \<and> (length (temperature_2m_min dl) \<le> i \<longrightarrow>
              temp_min (ds ! i) = 0
            \<and> advice (ds ! i) =
                (if i < length (temperature_2m_max dl) \<and> temperature_2m_max dl ! i \<ge> 32
                 then advice_hot else precip_advice (prob_at dl i)))
        \<and> (length (temperature_2m_max dl) \<le> i \<and> length (temperature_2m_min dl) \<le> i \<longrightarrow>
              advice (ds ! i) = precip_advice (prob_at dl i))
        \<and> snd (classify (prob_at dl i) (Some 0) (Some 0)) = advice_cold"
    if "follows_schema fromiso body dl" "i < length (time dl)"
    using that
    by (simp add: fetch_daily_forecast_days day_at_advice day_at_tmax_missing day_at_tmin_missing
          classify_def)
  have B: "(entry_or (dict_get dkvs ''temperature_2m_max'' (JArr [])) j JNull = Inr JNull \<longrightarrow>
            temp_max (dys ! j) = 0
          \<and> advice (dys ! j) =
              (if entry_or (dict_get dkvs ''temperature_2m_min'' (JArr [])) j JNull \<noteq> Inr JNull
                  \<and> temp_min (dys ! j) \<le> 35
               then advice_cold else precip_advice (of_int (precip_prob (dys ! j)))))
      \<and> (entry_or (dict_get dkvs ''temperature_2m_min'' (JArr [])) j JNull = Inr JNull \<longrightarrow>
            temp_min (dys ! j) = 0
          \<and> advice (dys ! j) =
              (if entry_or (dict_get dkvs ''temperature_2m_max'' (JArr [])) j JNull \<noteq> Inr JNull
                  \<and> temp_max (dys ! j) \<ge> 32
               then advice_hot else precip_advice (of_int (precip_prob (dys ! j)))))"
    if "fetch_daily_forecast fromiso (Returned (JObj kvs)) = Inr dys"
      "dict_get kvs ''daily'' (JObj []) = JObj dkvs" "j < length dys"
  proof -
    from fetch_Inr [OF that] obtain d where
      e: "forecast_entry fromiso
               (dict_get dkvs ''temperature_2m_max'' (JArr []))
               (dict_get dkvs ''temperature_2m_min'' (JArr []))
               (dict_get dkvs ''precipitation_probability_max'' (JArr [])) j d = Inr (dys ! j)"
      by blast
    from day_without_max [OF e] day_without_min [OF e] show ?thesis by blast
  qed
  from A B show ?thesis by blast
qed

theorem missing_temperature_skips_its_override_witness:
  "follows_schema iso_demo no_temps_day2_body no_temps_day2
   \<and> (\<exists>ds. fetch_daily_forecast iso_demo (Returned no_temps_day2_body) = Inr ds
      \<and> temp_max (ds ! 1) = 0 \<and> temp_min (ds ! 1) = 0 \<and> advice (ds ! 1) = advice_rain)
   \<and> fetch_daily_forecast iso_demo (Returned null_temp_body) = Inr null_temp_days
   \<and> temp_max (null_temp_days ! 1) = 0 \<and> advice (null_temp_days ! 1) = advice_clear
   \<and> temp_min (null_temp_days ! 2) = 0 \<and> advice (null_temp_days ! 2) = advice_clear"
proof -
  let ?dkvs = "[(''time'', JArr [JStr ''2025-06-01'', JStr ''2025-06-02'', JStr ''2025-06-03'']),
                (''temperature_2m_max'', JArr [JNum 20, JNull, JNum 22]),
                (''temperature_2m_min'', JArr [JNum 36, JNum 37]),
                (''precipitation_probability_max'', JArr [JNum 80, JNum 10])]"
  have s: "follows_schema iso_demo no_temps_day2_body no_temps_day2"
    unfolding no_temps_day2_body_def
    by (rule follows_schema_body_of) (simp add: iso_demo_def no_temps_day2_def)
  have f: "fetch_daily_forecast iso_demo (Returned (JObj [(''daily'', JObj ?dkvs)]))
           = Inr null_temp_days"
    by (simp add: null_temp_days_def iso_demo_def fetch_daily_forecast_def
          dict_get_def bind_err_def enumerate_eq_zip forecast_entry_def entry_or_def
          opt_number_def classify_def py_int_def)
  have d: "dict_get [(''daily'', JObj ?dkvs)] ''daily'' (JObj []) = JObj ?dkvs"
    by (simp add: dict_get_def)
  have n: "(1::nat) < length null_temp_days" "(2::nat) < length null_temp_days"
    by (simp_all add: null_temp_days_def)
  have m1: "entry_or (dict_get ?dkvs ''temperature_2m_max'' (JArr [])) 1 JNull = Inr JNull"
    by (simp add: dict_get_def entry_or_def bind_err_def)
  have m2: "entry_or (dict_get ?dkvs ''temperature_2m_min'' (JArr [])) 2 JNull = Inr JNull"
    by (simp add: dict_get_def entry_or_def bind_err_def)
  have p1: "entry_or (dict_get ?dkvs ''temperature_2m_min'' (JArr [])) 1 JNull = Inr (JNum 37)"
    by (simp add: dict_get_def entry_or_def bind_err_def)
  have p2: "entry_or (dict_get ?dkvs ''temperature_2m_max'' (JArr [])) 2 JNull = Inr (JNum 22)"
    by (simp add: dict_get_def entry_or_def bind_err_def)
  have v: "temp_min (null_temp_days ! 1) = 37" "temp_max (null_temp_days ! 2) = 22"
    "precip_prob (null_temp_days ! 1) = 10" "precip_prob (null_temp_days ! 2) = 0"
    by (simp_all add: null_temp_days_def)
  have a: "\<exists>ds. fetch_daily_forecast iso_demo (Returned no_temps_day2_body) = Inr ds
      \<and> temp_max (ds ! 1) = 0 \<and> temp_min (ds ! 1) = 0 \<and> advice (ds ! 1) = advice_rain"
    using s missing_temperature_skips_its_override
      [where fromiso = iso_demo and body = no_temps_day2_body and dl = no_temps_day2 and i = 1,
       THEN conjunct1]
    by (auto simp: no_temps_day2_def precip_advice_def prob_at_def)
  have b1: "temp_max (null_temp_days ! 1) = 0 \<and> advice (null_temp_days ! 1) = advice_clear"
    using f d n(1) m1 p1 v missing_temperature_skips_its_override
      [where fromiso = iso_demo and kvs = "[(''daily'', JObj ?dkvs)]" and dkvs = ?dkvs
         and dys = null_temp_days and j = 1, THEN conjunct2]
    by (simp add: precip_advice_def)
  have b2: "temp_min (null_temp_days ! 2) = 0 \<and> advice (null_temp_days ! 2) = advice_clear"
    using f d n(2) m2 p2 v missing_temperature_skips_its_override
      [where fromiso = iso_demo and kvs = "[(''daily'', JObj ?dkvs)]" and dkvs = ?dkvs
         and dys = null_temp_days and j = 2, THEN conjunct2]
    by (simp add: precip_advice_def)
  from f have "fetch_daily_forecast iso_demo (Returned null_temp_body) = Inr null_temp_days"
    by (simp add: null_temp_body_def)
  with s a b1 b2 show ?thesis by blast
qed

section \<open>Geocoding and the weather endpoint\<close>






lemma geocode_city_hit:
  "map_of kvs ''results'' = Some (JArr (JObj fkvs # rest)) \<Longrightarrow>
   map_of fkvs ''latitude'' = Some la \<Longrightarrow> py_float sf la = Some lat \<Longrightarrow>
   map_of fkvs ''longitude'' = Some lo \<Longrightarrow> py_float sf lo = Some lon \<Longrightarrow>
   geocode_city sf (Returned (JObj kvs)) = Some (lat, lon)"
  by (simp add: geocode_city_def)


lemma get_trip_or_404_id: "get_trip_or_404 d tid = Inr t \<Longrightarrow> t_id t = tid \<and> t \<in> set (trips d)"
  by (auto simp: get_trip_or_404_def find_Some_iff split: option.splits)

lemma demo_trip_found: "get_trip_or_404 demo_db 1 = Inr demo_trip"
  by (simp add: get_trip_or_404_def demo_db_def demo_trip_def)

lemma require_view_access_owner: "t_owner_id t = u \<Longrightarrow> require_view_access d t u = Inr ()"
  by (simp add: require_view_access_def user_role_for_trip_def)

lemma require_view_access_member:
  "find (\<lambda>m. m_user_id m = u) (members d t) = Some m \<Longrightarrow> m_role m \<noteq> [] \<Longrightarrow>
   require_view_access d t u = Inr ()"
  by (simp add: require_view_access_def user_role_for_trip_def)

lemma require_view_access_cases:
  "require_view_access d t u = Inr ()
   \<or> require_view_access d t u = Inl (HTTPException 403 ''Not authorized for this trip'')"
  by (simp add: require_view_access_def split: option.splits)

lemma trip_weather_authorized:
  "get_trip_or_404 d tid = Inr t \<Longrightarrow> require_view_access d t u = Inr () \<Longrightarrow>
   trip_weather d tid u sf geo fromiso fc =
     (case geocode_city sf geo of
        None \<Rightarrow> Inl (HTTPException 404 could_not_find)
      | Some coords \<Rightarrow>
          (case fetch_daily_forecast fromiso fc of
             Inl e \<Rightarrow> Inl e
           | Inr dys \<Rightarrow>
               Inr \<lparr>city = t_destination t, start_date = t_start_date t,
                    end_date = t_end_date t, days = dys\<rparr>))"
  by (simp add: trip_weather_def split: option.splits)

lemma trip_weather_refused:
  "get_trip_or_404 d tid = Inr t \<Longrightarrow> require_view_access d t u \<noteq> Inr () \<Longrightarrow>
   trip_weather d tid u sf geo fromiso fc = Inl (HTTPException 403 ''Not authorized for this trip'')"
  using require_view_access_cases [of d t u] by (auto simp: trip_weather_def)



section \<open>Who may read and who may write\<close>

lemma ensure_member_or_owner_iff:
  "ensure_member_or_owner d t u =
     (if t_owner_id t = u \<or> u \<in> set (map m_user_id (members d t)) then Inr ()
      else Inl forbidden_view)"
  by (auto simp: ensure_member_or_owner_def list_ex_iff)

lemma ensure_owner_iff:
  "ensure_owner t u = (if t_owner_id t = u then Inr () else Inl forbidden_owner)"
  by (simp add: ensure_owner_def)

lemma get_trip_gate:
  "get_trip_or_404 d tid = Inr t \<Longrightarrow>
   get_trip d tid u =
     (if t_owner_id t = u \<or> u \<in> set (map m_user_id (members d t)) then Inr t
      else Inl forbidden_view)"
  by (simp add: get_trip_def ensure_member_or_owner_iff)

lemma list_trip_members_gate:
  "get_trip_or_404 d tid = Inr t \<Longrightarrow>
   list_trip_members d tid u =
     (if t_owner_id t = u \<or> u \<in> set (map m_user_id (members d t)) then Inr (members d t)
      else Inl forbidden_view)"
  by (simp add: list_trip_members_def ensure_member_or_owner_iff)

lemma export_trip_pdf_gate:
  "get_trip_or_404 d tid = Inr t \<Longrightarrow>
   (if t_owner_id t = u \<or> u \<in> set (map m_user_id (members d t))
    then \<exists>doc. export_trip_pdf d tid u = Inr doc
    else export_trip_pdf d tid u = Inl forbidden_view)"
  by (simp add: export_trip_pdf_def ensure_member_or_owner_iff Let_def)

lemma not_listed_no_role:
  "t_owner_id t \<noteq> u \<Longrightarrow> u \<notin> set (map m_user_id (members d t)) \<Longrightarrow>
   require_view_access d t u = Inl forbidden_view"
proof -
  assume o: "t_owner_id t \<noteq> u" and n: "u \<notin> set (map m_user_id (members d t))"
  from n have "\<not> list_ex (\<lambda>m. m_user_id m = u) (members d t)" by (auto simp: list_ex_iff)
  then have "find (\<lambda>m. m_user_id m = u) (members d t) = None" by (rule find_not_list_ex)
  with o show ?thesis by (simp add: require_view_access_def user_role_for_trip_def)
qed

lemma trip_weather_gate:
  assumes "get_trip_or_404 d tid = Inr t"
  shows "(\<not> (t_owner_id t = u \<or> u \<in> set (map m_user_id (members d t))) \<longrightarrow>
            trip_weather d tid u sf geo fromiso fc = Inl forbidden_view)
       \<and> (t_owner_id t = u
            \<or> (\<exists>m. find (\<lambda>m. m_user_id m = u) (members d t) = Some m \<and> m_role m \<noteq> []) \<longrightarrow>
            (if geocode_city sf geo = None
             then trip_weather d tid u sf geo fromiso fc = Inl (HTTPException 404 could_not_find)
             else trip_weather d tid u sf geo fromiso fc =
                    (case fetch_daily_forecast fromiso fc of
                       Inl e \<Rightarrow> Inl e
                     | Inr dys \<Rightarrow>
                         Inr \<lparr>city = t_destination t, start_date = t_start_date t,
                              end_date = t_end_date t, days = dys\<rparr>)
                \<and> (fc = Raised \<or> (fc = Returned body \<and> follows_schema fromiso body dl) \<longrightarrow>
                     (\<exists>r. trip_weather d tid u sf geo fromiso fc = Inr r))))"
proof -
  have A: "trip_weather d tid u sf geo fromiso fc = Inl forbidden_view"
    if "\<not> (t_owner_id t = u \<or> u \<in> set (map m_user_id (members d t)))"
  proof -
    from that have "require_view_access d t u = Inl forbidden_view"
      using not_listed_no_role [of t u d] by blast
    then show ?thesis using trip_weather_refused [OF assms, of u sf geo fromiso fc] by simp
  qed
  have B: "(if geocode_city sf geo = None
             then trip_weather d tid u sf geo fromiso fc = Inl (HTTPException 404 could_not_find)
             else trip_weather d tid u sf geo fromiso fc =
                    (case fetch_daily_forecast fromiso fc of
                       Inl e \<Rightarrow> Inl e
                     | Inr dys \<Rightarrow>
                         Inr \<lparr>city = t_destination t, start_date = t_start_date t,
                              end_date = t_end_date t, days = dys\<rparr>)
                \<and> (fc = Raised \<or> (fc = Returned body \<and> follows_schema fromiso body dl) \<longrightarrow>
                     (\<exists>r. trip_weather d tid u sf geo fromiso fc = Inr r)))"
    if "t_owner_id t = u
          \<or> (\<exists>m. find (\<lambda>m. m_user_id m = u) (members d t) = Some m \<and> m_role m \<noteq> [])"
  proof -
    from that have "require_view_access d t u = Inr ()"
      using require_view_access_owner [of t u d] require_view_access_member [of u d t] by blast
    note w = trip_weather_authorized [OF assms this, of sf geo fromiso fc]
    show ?thesis
    proof (cases "geocode_city sf geo")
      case None
      with w show ?thesis by simp
    next
      case (Some c)
      have "\<exists>r. trip_weather d tid u sf geo fromiso fc = Inr r"
        if "fc = Raised \<or> (fc = Returned body \<and> follows_schema fromiso body dl)"
      proof -
        from fetch_daily_forecast_total [OF that] obtain dys where
          "fetch_daily_forecast fromiso fc = Inr dys" by blast
        with w Some show ?thesis by simp
      qed
      with w Some show ?thesis by simp
    qed
  qed
  from A B show ?thesis by blast
qed

lemma update_trip_gate:
  "get_trip_or_404 d tid = Inr t \<Longrightarrow>
   fst (update_trip d tid p u) = (if t_owner_id t = u then Inr (apply_update p t) else Inl forbidden_owner)
   \<and> (t_owner_id t \<noteq> u \<longrightarrow> snd (update_trip d tid p u) = d)"
  by (simp add: update_trip_def ensure_owner_iff Let_def)

lemma delete_trip_gate:
  "get_trip_or_404 d tid = Inr t \<Longrightarrow>
   fst (delete_trip d tid u) = (if t_owner_id t = u then Inr () else Inl forbidden_owner)
   \<and> (t_owner_id t \<noteq> u \<longrightarrow> snd (delete_trip d tid u) = d)"
  by (simp add: delete_trip_def ensure_owner_iff)

lemma add_or_update_member_gate:
  "get_trip_or_404 d tid = Inr t \<Longrightarrow>
   (if t_owner_id t = u then \<exists>m. fst (add_or_update_member d tid mp u) = Inr m
    else fst (add_or_update_member d tid mp u) = Inl forbidden_owner)
   \<and> (t_owner_id t \<noteq> u \<longrightarrow> snd (add_or_update_member d tid mp u) = d)"
  by (simp add: add_or_update_member_def ensure_owner_iff Let_def split: option.splits)

lemma delete_member_gate:
  "get_trip_or_404 d tid = Inr t \<Longrightarrow>
   fst (delete_member d tid uid u) =
     (if t_owner_id t \<noteq> u then Inl forbidden_owner
      else if list_ex (\<lambda>m. m_trip_id m = tid \<and> m_user_id m = uid) (trip_members d) then Inr ()
      else Inl (HTTPException 404 ''Member not found''))
   \<and> (t_owner_id t \<noteq> u \<longrightarrow> snd (delete_member d tid uid u) = d)"
proof (cases "list_ex (\<lambda>m. m_trip_id m = tid \<and> m_user_id m = uid) (trip_members d)")
  case True
  assume "get_trip_or_404 d tid = Inr t"
  moreover from find_list_ex [OF True] obtain m where
    "find (\<lambda>m. m_trip_id m = tid \<and> m_user_id m = uid) (trip_members d) = Some m" by blast
  ultimately show ?thesis using True by (simp add: delete_member_def ensure_owner_iff)
next
  case False
  assume "get_trip_or_404 d tid = Inr t"
  moreover from find_not_list_ex [OF False] have
    "find (\<lambda>m. m_trip_id m = tid \<and> m_user_id m = uid) (trip_members d) = None" .
  ultimately show ?thesis using False by (simp add: delete_member_def ensure_owner_iff)
qed

text \<open>
  C1, as stated, fails: the owner of a trip is refused a write (removing a user that is
  not a member ends in 404) and a read (the weather of a destination that cannot be
  geocoded ends in 404).
\<close>

theorem owner_refused_counterexample:
  "get_trip_or_404 demo_db 1 = Inr demo_trip \<and> t_owner_id demo_trip = 1
   \<and> delete_member demo_db 1 9 1 = (Inl (HTTPException 404 ''Member not found''), demo_db)
   \<and> trip_weather demo_db 1 1 (\<lambda>s. None) Raised iso_demo Raised
       = Inl (HTTPException 404 could_not_find)"
  by (simp add: demo_db_def demo_trip_def get_trip_or_404_def delete_member_def ensure_owner_def
        trip_weather_def require_view_access_def user_role_for_trip_def geocode_city_def)

text \<open>
  Not part of the amended statement: a member whose role is the empty string reads the
  trip through the trips router and is refused by the weather router, whose check is the
  truth value of the role.
\<close>

lemma weather_refuses_member_with_empty_role:
  "get_trip demo_db 1 3 = Inr demo_trip
   \<and> 3 \<in> set (map m_user_id (members demo_db demo_trip))
   \<and> trip_weather demo_db 1 3 sf geo fromiso fc = Inl forbidden_view"
  by (simp add: demo_db_def demo_trip_def get_trip_or_404_def get_trip_def
        ensure_member_or_owner_def members_def
        trip_weather_def require_view_access_def user_role_for_trip_def)

text \<open>
  C1, amended. For an existing trip \<open>t\<close> and a user \<open>u\<close>: get trip, list members and
  export succeed iff \<open>u\<close> is the owner or is in the membership list, else 403; weather is
  403 when \<open>u\<close> is neither, and for the owner or a member whose role is not empty it is
  not refused: it is 404 when the destination is not geocoded, and otherwise what
  parsing the forecast response gives, which is a forecast whenever the forecast request
  fails or its response follows the schema; partial update, delete and member upsert
  succeed iff \<open>u\<close> is the owner, else 403; member removal is 403 iff \<open>u\<close> is not the
  owner, and for the owner it succeeds iff the row exists, else 404. A write that is
  refused with 403 leaves the store as it was.
\<close>

theorem access_gates:
  assumes "get_trip_or_404 d tid = Inr t"
  shows
  "get_trip d tid u =
     (if t_owner_id t = u \<or> u \<in> set (map m_user_id (members d t)) then Inr t
      else Inl forbidden_view)
   \<and> list_trip_members d tid u =
     (if t_owner_id t = u \<or> u \<in> set (map m_user_id (members d t)) then Inr (members d t)
      else Inl forbidden_view)
   \<and> (if t_owner_id t = u \<or> u \<in> set (map m_user_id (members d t))
      then \<exists>doc. export_trip_pdf d tid u = Inr doc
      else export_trip_pdf d tid u = Inl forbidden_view)
   \<and> (\<not> (t_owner_id t = u \<or> u \<in> set (map m_user_id (members d t))) \<longrightarrow>
        trip_weather d tid u sf geo fromiso fc = Inl forbidden_view)
   \<and> (t_owner_id t = u
        \<or> (\<exists>m. find (\<lambda>m. m_user_id m = u) (members d t) = Some m \<and> m_role m \<noteq> []) \<longrightarrow>
        (if geocode_city sf geo = None
         then trip_weather d tid u sf geo fromiso fc = Inl (HTTPException 404 could_not_find)
         else trip_weather d tid u sf geo fromiso fc =
                (case fetch_daily_forecast fromiso fc of
                   Inl e \<Rightarrow> Inl e
                 | Inr dys \<Rightarrow>
                     Inr \<lparr>city = t_destination t, start_date = t_start_date t,
                          end_date = t_end_date t, days = dys\<rparr>)
            \<and> (fc = Raised \<or> (fc = Returned body \<and> follows_schema fromiso body dl) \<longrightarrow>
                 (\<exists>r. trip_weather d tid u sf geo fromiso fc = Inr r))))
   \<and> fst (update_trip d tid p u) =
       (if t_owner_id t = u then Inr (apply_update p t) else Inl forbidden_owner)
   \<and> fst (delete_trip d tid u) = (if t_owner_id t = u then Inr () else Inl forbidden_owner)
   \<and> (if t_owner_id t = u then \<exists>m. fst (add_or_update_member d tid mp u) = Inr m
      else fst (add_or_update_member d tid mp u) = Inl forbidden_owner)
   \<and> fst (delete_member d tid uid u) =
       (if t_owner_id t \<noteq> u then Inl forbidden_owner
        else if list_ex (\<lambda>m. m_trip_id m = tid \<and> m_user_id m = uid) (trip_members d) then Inr ()
        else Inl (HTTPException 404 ''Member not found''))
   \<and> (t_owner_id t \<noteq> u \<longrightarrow>
        snd (update_trip d tid p u) = d \<and> snd (delete_trip d tid u) = d
      \<and> snd (add_or_update_member d tid mp u) = d \<and> snd (delete_member d tid uid u) = d)"
  using get_trip_gate [OF assms, of u] list_trip_members_gate [OF assms, of u]
    export_trip_pdf_gate [OF assms, of u]
    trip_weather_gate [OF assms, where u = u and sf = sf and geo = geo and fromiso = fromiso
      and fc = fc and body = body and dl = dl]
    update_trip_gate [OF assms, of p u] delete_trip_gate [OF assms, of u]
    add_or_update_member_gate [OF assms, of u mp] delete_member_gate [OF assms, of uid u]
  by (intro conjI) blast+

theorem access_gates_witness:
  "get_trip_or_404 demo_db 1 = Inr demo_trip
   \<and> get_trip demo_db 1 2 = Inr demo_trip
   \<and> get_trip demo_db 1 5 = Inl forbidden_view
   \<and> fst (delete_trip demo_db 1 2) = Inl forbidden_owner
   \<and> fst (delete_trip demo_db 1 1) = Inr ()
   \<and> trip_weather demo_db 1 5 (\<lambda>s. None) Raised iso_demo Raised = Inl forbidden_view"
  using demo_trip_found
    access_gates [OF demo_trip_found, where u = 2 and sf = "\<lambda>s. None" and geo = Raised
      and fromiso = iso_demo and fc = Raised]
    access_gates [OF demo_trip_found, where u = 5 and sf = "\<lambda>s. None" and geo = Raised
      and fromiso = iso_demo and fc = Raised]
    access_gates [OF demo_trip_found, where u = 1 and sf = "\<lambda>s. None" and geo = Raised
      and fromiso = iso_demo and fc = Raised]
  by (simp add: demo_db_def demo_trip_def members_def)

section \<open>Membership\<close>

text \<open>
  C6. When the owner upserts a member of an existing trip: if a row for the pair (trip,
  user) exists, the first such row gets the new role where it stands, every other row
  and the number of rows stay as they were, and so does the member count of the trip;
  if there is none, exactly one row is appended, with the trip, the user, the given role
  and a fresh id, and the member count of the trip grows by one.
\<close>

theorem upsert_member:
  assumes "get_trip_or_404 d tid = Inr t" and "t_owner_id t = u"
  shows
  "(list_ex (\<lambda>m. m_trip_id m = tid \<and> m_user_id m = user_id p) (trip_members d) \<longrightarrow>
      (\<exists>pre member post.
          trip_members d = pre @ member # post
        \<and> \<not> list_ex (\<lambda>m. m_trip_id m = tid \<and> m_user_id m = user_id p) pre
        \<and> m_trip_id member = tid \<and> m_user_id member = user_id p
        \<and> add_or_update_member d tid p u =
            (Inr (member\<lparr>m_role := role p\<rparr>),
             d\<lparr>trip_members := pre @ member\<lparr>m_role := role p\<rparr> # post\<rparr>))
      \<and> length (trip_members (snd (add_or_update_member d tid p u))) = length (trip_members d)
      \<and> length (members (snd (add_or_update_member d tid p u)) t) = length (members d t))
   \<and> (\<not> list_ex (\<lambda>m. m_trip_id m = tid \<and> m_user_id m = user_id p) (trip_members d) \<longrightarrow>
      (\<exists>new.
          add_or_update_member d tid p u = (Inr new, d\<lparr>trip_members := trip_members d @ [new]\<rparr>)
        \<and> m_trip_id new = tid \<and> m_user_id new = user_id p \<and> m_role new = role p
        \<and> m_id new \<notin> set (map m_id (trip_members d)))
      \<and> length (members (snd (add_or_update_member d tid p u)) t) = length (members d t) + 1)"
proof -
  let ?same = "\<lambda>m. m_trip_id m = tid \<and> m_user_id m = user_id p"
  have tid: "t_id t = tid" using assms(1) get_trip_or_404_id by blast
  have own: "ensure_owner t u = Inr ()" using assms(2) by (simp add: ensure_owner_def)
  have A: ?thesis if ex: "list_ex ?same (trip_members d)"
  proof -
    from find_list_ex [OF ex] obtain member where
      f: "find ?same (trip_members d) = Some member" and s: "?same member" by blast
    from replace_first_split [OF f, of "member\<lparr>m_role := role p\<rparr>"] obtain pre post where
      sp: "trip_members d = pre @ member # post" "\<not> list_ex ?same pre"
        "replace_first ?same (member\<lparr>m_role := role p\<rparr>) (trip_members d)
           = pre @ member\<lparr>m_role := role p\<rparr> # post"
      by blast
    have r: "add_or_update_member d tid p u =
        (Inr (member\<lparr>m_role := role p\<rparr>),
         d\<lparr>trip_members := pre @ member\<lparr>m_role := role p\<rparr> # post\<rparr>)"
      by (simp add: add_or_update_member_def assms(1) own f sp(3) Let_def)
    have l1: "length (trip_members (snd (add_or_update_member d tid p u))) = length (trip_members d)"
      by (simp add: r sp(1))
    have l2: "length (members (snd (add_or_update_member d tid p u)) t) = length (members d t)"
      by (simp add: r sp(1) members_def)
    from sp(1,2) s r l1 l2 ex show ?thesis by blast
  qed
  have B: ?thesis if nex: "\<not> list_ex ?same (trip_members d)"
  proof -
    let ?new = "\<lparr>m_id = next_id (map m_id (trip_members d)), m_trip_id = tid,
                  m_user_id = user_id p, m_role = role p\<rparr>"
    have f: "find ?same (trip_members d) = None" using nex by (rule find_not_list_ex)
    have r: "add_or_update_member d tid p u = (Inr ?new, d\<lparr>trip_members := trip_members d @ [?new]\<rparr>)"
      by (simp add: add_or_update_member_def assms(1) own f Let_def)
    have fr: "m_id ?new \<notin> set (map m_id (trip_members d))"
      using next_id_fresh [of "map m_id (trip_members d)"] by simp
    have l: "length (members (snd (add_or_update_member d tid p u)) t) = length (members d t) + 1"
      by (simp add: r members_def tid)
    have "\<exists>new. add_or_update_member d tid p u = (Inr new, d\<lparr>trip_members := trip_members d @ [new]\<rparr>)
        \<and> m_trip_id new = tid \<and> m_user_id new = user_id p \<and> m_role new = role p
        \<and> m_id new \<notin> set (map m_id (trip_members d))"
      using r fr by (intro exI [of _ ?new]) simp
    with l nex show ?thesis by blast
  qed
  from A B show ?thesis by blast
qed

theorem upsert_member_witness:
  "get_trip_or_404 demo_db 1 = Inr demo_trip \<and> t_owner_id demo_trip = 1
   \<and> list_ex (\<lambda>m. m_trip_id m = 1 \<and> m_user_id m = 2) (trip_members demo_db)
   \<and> length (members (snd (add_or_update_member demo_db 1 \<lparr>user_id = 2, role = ''editor''\<rparr> 1)) demo_trip)
       = length (members demo_db demo_trip)
   \<and> \<not> list_ex (\<lambda>m. m_trip_id m = 1 \<and> m_user_id m = 9) (trip_members demo_db)
   \<and> length (members (snd (add_or_update_member demo_db 1 \<lparr>user_id = 9, role = ''editor''\<rparr> 1)) demo_trip)
       = length (members demo_db demo_trip) + 1"
proof -
  have own: "t_owner_id demo_trip = 1" by (simp add: demo_trip_def)
  have has: "list_ex (\<lambda>m. m_trip_id m = 1 \<and> m_user_id m = 2) (trip_members demo_db)"
    by (simp add: demo_db_def)
  have hasnt: "\<not> list_ex (\<lambda>m. m_trip_id m = 1 \<and> m_user_id m = 9) (trip_members demo_db)"
    by (simp add: demo_db_def)
  show ?thesis
    using upsert_member [OF demo_trip_found own, of "\<lparr>user_id = 2, role = ''editor''\<rparr>"]
      upsert_member [OF demo_trip_found own, of "\<lparr>user_id = 9, role = ''editor''\<rparr>"]
      demo_trip_found own has hasnt
    by simp
qed

text \<open>
  C7. When the owner of an existing trip removes a user that has no membership row for
  the trip, the call fails with 404 ``Member not found'' and the store, hence the roster
  of the trip, is unchanged.
\<close>

theorem delete_absent_member:
  assumes "get_trip_or_404 d tid = Inr t" and "t_owner_id t = u"
    and "\<not> list_ex (\<lambda>m. m_trip_id m = tid \<and> m_user_id m = uid) (trip_members d)"
  shows "delete_member d tid uid u = (Inl (HTTPException 404 ''Member not found''), d)
       \<and> members (snd (delete_member d tid uid u)) t = members d t"
proof -
  have own: "ensure_owner t u = Inr ()" using assms(2) by (simp add: ensure_owner_def)
  have "find (\<lambda>m. m_trip_id m = tid \<and> m_user_id m = uid) (trip_members d) = None"
    using assms(3) by (rule find_not_list_ex)
  then have "delete_member d tid uid u = (Inl (HTTPException 404 ''Member not found''), d)"
    by (simp add: delete_member_def assms(1) own)
  then show ?thesis by simp
qed

theorem delete_absent_member_witness:
  "delete_member demo_db 1 9 1 = (Inl (HTTPException 404 ''Member not found''), demo_db)"
proof -
  have own: "t_owner_id demo_trip = 1" by (simp add: demo_trip_def)
  have hasnt: "\<not> list_ex (\<lambda>m. m_trip_id m = 1 \<and> m_user_id m = 9) (trip_members demo_db)"
    by (simp add: demo_db_def)
  show ?thesis using delete_absent_member [OF demo_trip_found own hasnt] by simp
qed

section \<open>Creating and reading a trip\<close>

text \<open>
  C9. Reading a trip right after creating it, by the id it was given and as the same
  user, returns the created trip: name, destination, start and end date are those of the
  payload, and the owner is the caller whatever \<open>owner_id\<close> the payload carried.
\<close>

theorem create_then_get:
  "(case create_trip d payload u of
      (t, d') \<Rightarrow>
        get_trip d' (t_id t) u = Inr t
      \<and> t_name t = tc_name payload \<and> t_destination t = tc_destination payload
      \<and> t_start_date t = tc_start_date payload \<and> t_end_date t = tc_end_date payload
      \<and> t_owner_id t = u)
   \<and> create_trip d (payload\<lparr>tc_owner_id := other\<rparr>) u = create_trip d payload u"
proof -
  let ?n = "next_id (map t_id (trips d))"
  have "\<not> list_ex (\<lambda>r. t_id r = ?n) (trips d)"
    using next_id_fresh [of "map t_id (trips d)"] by (force simp: list_ex_iff)
  then have "find (\<lambda>r. t_id r = ?n) (trips d) = None" by (rule find_not_list_ex)
  then show ?thesis
    by (simp add: create_trip_def get_trip_def get_trip_or_404_def ensure_member_or_owner_def
          Let_def find_append_None)
qed

theorem create_then_get_witness:
  "(case create_trip demo_db
           \<lparr>tc_owner_id = Some 99, tc_name = ''Alps'', tc_destination = ''Chamonix'',
            tc_start_date = (2025, 7, 1), tc_end_date = (2025, 7, 9)\<rparr> 7 of
      (t, d') \<Rightarrow>
        t_id t = 2 \<and> t_owner_id t = 7
      \<and> get_trip d' 2 7 =
          Inr \<lparr>t_id = 2, t_owner_id = 7, t_name = ''Alps'', t_destination = ''Chamonix'',
               t_start_date = (2025, 7, 1), t_end_date = (2025, 7, 9)\<rparr>)"
  using create_then_get [where d = demo_db and u = 7 and payload =
      "\<lparr>tc_owner_id = Some 99, tc_name = ''Alps'', tc_destination = ''Chamonix'',
        tc_start_date = (2025, 7, 1), tc_end_date = (2025, 7, 9)\<rparr>"]
  by (simp add: create_trip_def demo_db_def demo_trip_def next_id_def Let_def)

section \<open>The budget of the export\<close>

lemma actual_sum_list:
  "actual exps env =
     sum_list (map x_amount (filter (\<lambda>exp. x_envelope_id exp = Some (b_id env)) exps))"
  by (simp add: actual_def foldl_plus_sum_list)

text \<open>
  C8. For a caller with read access to an existing trip the export has one budget line
  per envelope of the trip, and the actual amount of a line is the sum of the amounts of
  the expenses of the trip whose envelope reference is the id of that envelope; expenses
  of another envelope or of none are not in the sum.
\<close>

theorem export_budget_actual:
  assumes "get_trip_or_404 d tid = Inr t" and "ensure_member_or_owner d t u = Inr ()"
  shows "(\<exists>doc. export_trip_pdf d tid u = Inr doc
     \<and> budget_lines doc =
         map (\<lambda>env. (b_category env, b_planned_amount env,
                     sum_list (map x_amount
                       (filter (\<lambda>x. x_trip_id x = tid \<and> x_envelope_id x = Some (b_id env))
                          (expenses d)))))
           (filter (\<lambda>b. b_trip_id b = tid) (budget_envelopes d)))
   \<and> (x_envelope_id x \<noteq> Some (b_id env) \<longrightarrow>
        actual (xs @ x # ys) env = actual (xs @ ys) env)"
  by (simp add: export_trip_pdf_def assms Let_def actual_sum_list)

theorem export_budget_actual_witness:
  "\<exists>doc. export_trip_pdf demo_db 1 2 = Inr doc
     \<and> budget_lines doc = [(''Food'', 100, 37), (''Museums'', 40, 15)]"
proof -
  have acc: "ensure_member_or_owner demo_db demo_trip 2 = Inr ()"
    by (simp add: ensure_member_or_owner_def members_def demo_db_def demo_trip_def)
  show ?thesis
    using export_budget_actual [OF demo_trip_found acc] by (simp add: demo_db_def)
qed

end
